theory Spec2Isabelle
  imports Main "HOL-Library.AList"
begin

section \<open>Signalling server of rtc-video-call-master: model of server/index.ts\<close>

text \<open>
  The server keeps six module-level tables and reacts to Socket.IO events, to one HTTP
  route and to timers. Each handler of \<^verbatim>\<open>server/index.ts\<close> is a function from the
  state to the new state and the list of messages it emits. JavaScript strings are
  \<open>string\<close>s whose characters are code units below 256; a string is truthy when it is not
  empty. Event payloads whose TypeScript type is declared in the handler are taken at that
  type; the payloads of the relay handlers are kept as JSON values, since their shape is
  what the relay depends on. In the Socket.IO handlers the keys of the tables are assumed
  not to be names of \<^verbatim>\<open>Object.prototype\<close> members; the HTTP route reads the room
  table with the prototype chain.

  Socket.IO is not part of the repository. Its rooms are modelled as the library documents
  them: \<^verbatim>\<open>socket.join\<close> and \<^verbatim>\<open>socket.leave\<close> add the socket to a room and
  remove it, a socket is in the room named by its own id while it is connected, and it has
  left every room when its \<^verbatim>\<open>disconnect\<close> handler runs. The route
  \<^verbatim>\<open>GET /api/rooms\<close> and the \<^verbatim>\<open>text-to-speech\<close> handler change no table and
  address the requester only; they are left out.
\<close>

subsection \<open>JSON payloads\<close>

datatype json =
    JUndefined
  | JNull
  | JBool bool
  | JNum int
  | JStr string
  | JObj "(string \<times> json) list"

definition truthy :: "string \<Rightarrow> bool" where
  "truthy s \<longleftrightarrow> s \<noteq> []"

text \<open>\<open>optStr\<close> is a value that may be \<^verbatim>\<open>undefined\<close>, serialised into a payload.\<close>

definition optStr :: "string option \<Rightarrow> json" where
  "optStr v = (case v of None \<Rightarrow> JUndefined | Some s \<Rightarrow> JStr s)"

text \<open>Property read \<^verbatim>\<open>data.k\<close> for the keys the handlers destructure.\<close>

fun member :: "json \<Rightarrow> string \<Rightarrow> json" where
  "member (JObj kvs) k = (case map_of kvs k of Some v \<Rightarrow> v | None \<Rightarrow> JUndefined)"
| "member _ k = JUndefined"

fun decimal :: "nat \<Rightarrow> string" where
  "decimal n =
     (if n < 10 then [char_of (48 + n)]
      else decimal (n div 10) @ [char_of (48 + n mod 10)])"

fun indexed :: "nat \<Rightarrow> string \<Rightarrow> (string \<times> json) list" where
  "indexed i [] = []"
| "indexed i (c # cs) = (decimal i, JStr [c]) # indexed (Suc i) cs"

text \<open>
  The own enumerable properties that an object spread \<^verbatim>\<open>{...v}\<close> copies:
  those of an object, the indexed characters of a string, none for
  \<^verbatim>\<open>undefined\<close>, \<^verbatim>\<open>null\<close>, booleans and numbers.
\<close>

fun ownProps :: "json \<Rightarrow> (string \<times> json) list" where
  "ownProps (JObj kvs) = kvs"
| "ownProps (JStr s) = indexed 0 s"
| "ownProps _ = []"

text \<open>An object literal assigns its properties from left to right; a later key replaces
  the value of an earlier one.\<close>

definition assignAll :: "(string \<times> json) list \<Rightarrow> (string \<times> json) list \<Rightarrow> (string \<times> json) list" where
  "assignAll props acc = foldl (\<lambda>a kv. AList.update (fst kv) (snd kv) a) acc props"

subsection \<open>Emissions\<close>

text \<open>
  \<^verbatim>\<open>socket.emit\<close> addresses the socket itself; \<^verbatim>\<open>socket.to(room).emit\<close>
  addresses the Socket.IO room \<open>room\<close> without the sending socket.
\<close>

datatype target = ToSocket string | ToRoomExcept json string

datatype emission = Emit target string json

subsection \<open>State\<close>

record room =
  sessionIds :: "string list"
  socketIds :: "string list"

record cleanup =
  c_sessionId :: string
  c_timeoutId :: nat

record timer =
  t_roomId :: string
  t_sessionId :: string
  t_delay :: nat

text \<open>
  \<open>rooms\<close> is an association list in insertion order, because two handlers enumerate it.
  \<open>adapterRooms\<close> and \<open>sockets\<close> are the state of Socket.IO: the sockets in each
  broadcast room and the connected sockets (\<^verbatim>\<open>io.sockets.sockets\<close>).
  \<open>timeouts\<close> holds the timers set by \<^verbatim>\<open>setTimeout\<close> and not yet fired or cleared.
\<close>

record state =
  rooms :: "(string \<times> room) list"
  userRooms :: "string \<rightharpoonup> string"
  sessionConnections :: "string \<rightharpoonup> string list"
  userSessions :: "string \<rightharpoonup> string"
  sessionToSocket :: "string \<rightharpoonup> string"
  pendingRoomCleanups :: "string \<rightharpoonup> cleanup"
  adapterRooms :: "string \<Rightarrow> string set"
  sockets :: "string set"
  timeouts :: "nat \<rightharpoonup> timer"
  nextTimeout :: nat

definition MAX_USERS_PER_ROOM :: nat where
  "MAX_USERS_PER_ROOM = 2"

definition ROOM_CLEANUP_DELAY :: nat where
  "ROOM_CLEANUP_DELAY = 20000"

definition initial :: state where
  "initial = \<lparr> rooms = [], userRooms = Map.empty, sessionConnections = Map.empty,
     userSessions = Map.empty, sessionToSocket = Map.empty,
     pendingRoomCleanups = Map.empty, adapterRooms = (\<lambda>_. {}), sockets = {},
     timeouts = Map.empty, nextTimeout = 0 \<rparr>"

definition emptyRoom :: room where
  "emptyRoom = \<lparr> sessionIds = [], socketIds = [] \<rparr>"

definition getRoom :: "state \<Rightarrow> string \<Rightarrow> room option" where
  "getRoom st roomId = map_of (rooms st) roomId"

definition setRoom :: "string \<Rightarrow> room \<Rightarrow> state \<Rightarrow> state" where
  "setRoom roomId rd st = st\<lparr> rooms := AList.update roomId rd (rooms st) \<rparr>"

definition deleteRoom :: "string \<Rightarrow> state \<Rightarrow> state" where
  "deleteRoom roomId st = st\<lparr> rooms := AList.delete roomId (rooms st) \<rparr>"

text \<open>\<^verbatim>\<open>if (!xs.includes(x)) xs.push(x)\<close>\<close>

definition pushNew :: "string \<Rightarrow> string list \<Rightarrow> string list" where
  "pushNew x xs = (if x \<in> set xs then xs else xs @ [x])"

text \<open>\<^verbatim>\<open>i = xs.indexOf(x); if (i > -1) xs.splice(i, 1)\<close>\<close>

definition spliceOut :: "string \<Rightarrow> string list \<Rightarrow> string list" where
  "spliceOut x xs = remove1 x xs"

text \<open>\<^verbatim>\<open>socket.join(roomId)\<close> and \<^verbatim>\<open>socket.leave(roomId)\<close>\<close>

definition socketJoin :: "string \<Rightarrow> string \<Rightarrow> state \<Rightarrow> state" where
  "socketJoin sock roomId st =
     st\<lparr> adapterRooms := (adapterRooms st)(roomId := insert sock (adapterRooms st roomId)) \<rparr>"

definition socketLeave :: "string \<Rightarrow> string \<Rightarrow> state \<Rightarrow> state" where
  "socketLeave sock roomId st =
     st\<lparr> adapterRooms := (adapterRooms st)(roomId := adapterRooms st roomId - {sock}) \<rparr>"

text \<open>The sockets an emission is delivered to, in a given state of Socket.IO.\<close>

fun recipients :: "state \<Rightarrow> target \<Rightarrow> string set" where
  "recipients st (ToSocket sock) = (if sock \<in> sockets st then {sock} else {})"
| "recipients st (ToRoomExcept (JStr roomId) sock) = adapterRooms st roomId - {sock}"
| "recipients st (ToRoomExcept _ sock) = {}"

subsection \<open>GET /api/check-room/:roomId\<close>

datatype error = TypeError

text \<open>
  The route takes any path segment as \<open>roomId\<close>, and \<open>rooms\<close> is a plain object: a key
  that is not an own property is looked up in \<^verbatim>\<open>Object.prototype\<close>, whose members
  are all truthy and have no \<^verbatim>\<open>sessionIds\<close>.
\<close>

definition objectPrototypeMembers :: "string list" where
  "objectPrototypeMembers =
     [''constructor'', ''__proto__'', ''hasOwnProperty'', ''isPrototypeOf'',
      ''propertyIsEnumerable'', ''toLocaleString'', ''toString'', ''valueOf'',
      ''__defineGetter__'', ''__defineSetter__'', ''__lookupGetter__'', ''__lookupSetter__'']"

datatype lookup = Absent | Own room | Inherited

definition readRoom :: "state \<Rightarrow> string \<Rightarrow> lookup" where
  "readRoom st roomId =
     (case getRoom st roomId of
        Some rd \<Rightarrow> Own rd
      | None \<Rightarrow> if roomId \<in> set objectPrototypeMembers then Inherited else Absent)"

record checkRoomResponse =
  available :: bool
  exists :: bool
  userCount :: "nat option"
  message :: string

text \<open>
  The handler gives back the state and either the JSON it answers or the error it throws
  at \<^verbatim>\<open>rooms[roomId].sessionIds.length\<close>, which Express turns into a response with
  status 500.
\<close>

definition checkRoom :: "state \<Rightarrow> string \<Rightarrow> state \<times> (error + checkRoomResponse)" where
  "checkRoom st roomId =
     (case readRoom st roomId of
        Absent \<Rightarrow>
          (st, Inr \<lparr> available = True, exists = False, userCount = None,
                     message = ''Room does not exist and can be created'' \<rparr>)
      | Inherited \<Rightarrow> (st, Inl TypeError)
      | Own rd \<Rightarrow>
          (let isFull = (length (sessionIds rd) \<ge> MAX_USERS_PER_ROOM)
           in (st, Inr \<lparr> available = \<not> isFull, exists = True,
                          userCount = Some (length (sessionIds rd)),
                          message = (if isFull then ''Room is full''
                                     else ''Room is available to join'') \<rparr>)))"

subsection \<open>joinRoom, create-room, join-room\<close>

definition attachSocket :: "string \<Rightarrow> string \<Rightarrow> room \<Rightarrow> state \<Rightarrow> state" where
  "attachSocket sock roomId rd st = setRoom roomId (rd\<lparr> socketIds := pushNew sock (socketIds rd) \<rparr>) st"

definition joinRoom :: "state \<Rightarrow> string \<Rightarrow> string \<Rightarrow> string \<Rightarrow> state \<times> emission list" where
  "joinRoom st sock sid roomId =
     (let rd = (case getRoom st roomId of None \<Rightarrow> emptyRoom | Some r \<Rightarrow> r);
          st1 = (case getRoom st roomId of None \<Rightarrow> setRoom roomId emptyRoom st | Some r \<Rightarrow> st);
          st2 = socketJoin sock roomId st1
      in if sid \<notin> set (sessionIds rd) then
           if length (sessionIds rd) \<ge> MAX_USERS_PER_ROOM then
             (st2, [Emit (ToSocket sock) ''room-full'' (JObj [(''roomId'', JStr roomId)])])
           else
             (let rd' = rd\<lparr> sessionIds := sessionIds rd @ [sid] \<rparr>;
                  st3 = (setRoom roomId rd' st2)\<lparr> userRooms := (userRooms st2)(sid \<mapsto> roomId) \<rparr>
              in (attachSocket sock roomId rd' st3,
                  [Emit (ToRoomExcept (JStr roomId) sock) ''user-joined''
                     (JObj [(''userId'', JStr sock), (''sessionId'', JStr sid),
                            (''roomId'', JStr roomId)])]))
         else (attachSocket sock roomId rd st2, []))"

text \<open>\<^verbatim>\<open>userSessions[socket.id]\<close> as the handlers test it: present and truthy.\<close>

definition sessionOf :: "state \<Rightarrow> string \<Rightarrow> string option" where
  "sessionOf st sock =
     (case userSessions st sock of
        None \<Rightarrow> None
      | Some sid \<Rightarrow> if truthy sid then Some sid else None)"

definition on_create_room :: "state \<Rightarrow> string \<Rightarrow> string \<Rightarrow> state \<times> emission list" where
  "on_create_room st sock roomId =
     (let userSessionId = userSessions st sock
      in case userSessionId of
           None \<Rightarrow> (st, [])
         | Some sid \<Rightarrow> if truthy sid then joinRoom st sock sid roomId else (st, []))"

definition on_join_room :: "state \<Rightarrow> string \<Rightarrow> string \<Rightarrow> state \<times> emission list" where
  "on_join_room st sock roomId =
     (let userSessionId = userSessions st sock
      in case userSessionId of
           None \<Rightarrow> (st, [])
         | Some sid \<Rightarrow> if truthy sid then joinRoom st sock sid roomId else (st, []))"

subsection \<open>Timers\<close>

text \<open>\<^verbatim>\<open>setTimeout\<close> returns a fresh handle; the closure of the callback is the room and
  the session it was created for.\<close>

definition setTimeout :: "string \<Rightarrow> string \<Rightarrow> nat \<Rightarrow> state \<Rightarrow> state" where
  "setTimeout roomId sid delay st =
     st\<lparr> timeouts := (timeouts st)(nextTimeout st \<mapsto>
             \<lparr> t_roomId = roomId, t_sessionId = sid, t_delay = delay \<rparr>),
         nextTimeout := Suc (nextTimeout st) \<rparr>"

definition clearTimeout :: "nat \<Rightarrow> state \<Rightarrow> state" where
  "clearTimeout tid st = st\<lparr> timeouts := (timeouts st)(tid := None) \<rparr>"

text \<open>\<^verbatim>\<open>clearTimeout(pendingRoomCleanups[roomId].timeoutId); delete pendingRoomCleanups[roomId]\<close>\<close>

definition cancelCleanup :: "string \<Rightarrow> cleanup \<Rightarrow> state \<Rightarrow> state" where
  "cancelCleanup roomId c st =
     (clearTimeout (c_timeoutId c) st)\<lparr> pendingRoomCleanups := (pendingRoomCleanups st)(roomId := None) \<rparr>"

text \<open>The callback given to \<^verbatim>\<open>setTimeout\<close> in \<^verbatim>\<open>handleSessionLeaveRoom\<close>.\<close>

definition cleanupCallback :: "string \<Rightarrow> state \<Rightarrow> state" where
  "cleanupCallback roomId st =
     (case getRoom st roomId of
        None \<Rightarrow> st
      | Some rd \<Rightarrow>
          if sessionIds rd = [] then
            (deleteRoom roomId st)\<lparr> pendingRoomCleanups := (pendingRoomCleanups st)(roomId := None) \<rparr>
          else st)"

text \<open>A timer that is still set fires: it is no longer pending, and its callback runs.\<close>

definition fireTimeout :: "state \<Rightarrow> nat \<Rightarrow> state" where
  "fireTimeout st tid =
     (case timeouts st tid of
        None \<Rightarrow> st
      | Some t \<Rightarrow> cleanupCallback (t_roomId t) (clearTimeout tid st))"

subsection \<open>Leaving a room\<close>

definition getSocketIdsBySessionId :: "state \<Rightarrow> string \<Rightarrow> string list" where
  "getSocketIdsBySessionId st targetSessionId =
     (if \<not> truthy targetSessionId then []
      else case sessionConnections st targetSessionId of None \<Rightarrow> [] | Some cs \<Rightarrow> cs)"

definition userLeft :: "string \<Rightarrow> json \<Rightarrow> string \<Rightarrow> emission" where
  "userLeft sock sidField roomId =
     Emit (ToRoomExcept (JStr roomId) sock) ''user-left''
       (JObj [(''userId'', JStr sock), (''sessionId'', sidField), (''roomId'', JStr roomId)])"

definition handleSessionLeaveRoom :: "state \<Rightarrow> string \<Rightarrow> string \<Rightarrow> state \<times> emission list" where
  "handleSessionLeaveRoom st sid roomId =
     (case getRoom st roomId of
        None \<Rightarrow> (st, [])
      | Some rd \<Rightarrow>
          if sid \<in> set (sessionIds rd) then
            (let rd' = rd\<lparr> sessionIds := spliceOut sid (sessionIds rd) \<rparr>;
                 st1 = (setRoom roomId rd' st)\<lparr> userRooms := (userRooms st)(sid := None) \<rparr>
             in if sessionIds rd' = [] then
                  (let st2 = (case pendingRoomCleanups st1 roomId of
                                None \<Rightarrow> st1
                              | Some c \<Rightarrow> cancelCleanup roomId c st1);
                       tid = nextTimeout st2;
                       st3 = setTimeout roomId sid ROOM_CLEANUP_DELAY st2
                   in (st3\<lparr> pendingRoomCleanups := (pendingRoomCleanups st3)(roomId \<mapsto>
                              \<lparr> c_sessionId = sid, c_timeoutId = tid \<rparr>) \<rparr>, []))
                else
                  (let sessionSockets = getSocketIdsBySessionId st1 sid
                   in (st1, map (\<lambda>socketId. userLeft socketId (JStr sid) roomId)
                              (filter (\<lambda>socketId. socketId \<in> sockets st1) sessionSockets))))
          else (st, []))"

definition handleUserLeaveRoom :: "state \<Rightarrow> string \<Rightarrow> string \<Rightarrow> state \<times> emission list" where
  "handleUserLeaveRoom st sock roomId =
     (case getRoom st roomId of
        None \<Rightarrow> (st, [])
      | Some rd \<Rightarrow>
          (let res =
                 (case sessionOf st sock of
                    Some sid \<Rightarrow>
                      (let sessionSockets = getSocketIdsBySessionId st sid
                       in if length sessionSockets \<le> 1 then handleSessionLeaveRoom st sid roomId
                          else (setRoom roomId (rd\<lparr> socketIds := spliceOut sock (socketIds rd) \<rparr>) st, []))
                  | None \<Rightarrow>
                      if sock \<in> set (socketIds rd) then
                        (let rd' = rd\<lparr> socketIds := spliceOut sock (socketIds rd) \<rparr>
                         in if socketIds rd' = [] \<and> sessionIds rd' = [] then (deleteRoom roomId st, [])
                            else (setRoom roomId rd' st, [userLeft sock JNull roomId]))
                      else (st, []))
           in (socketLeave sock roomId (fst res), snd res)))"

subsection \<open>Connection, session-info, disconnect\<close>

text \<open>The registration block, written out twice in the source (connection handler and
  session-info handler) with the same statements.\<close>

definition registerSocket :: "state \<Rightarrow> string \<Rightarrow> string \<Rightarrow> state" where
  "registerSocket st sock sid =
     st\<lparr> userSessions := (userSessions st)(sock \<mapsto> sid),
         sessionConnections := (sessionConnections st)(sid \<mapsto>
            pushNew sock (case sessionConnections st sid of None \<Rightarrow> [] | Some cs \<Rightarrow> cs)),
         sessionToSocket :=
            (case sessionToSocket st sid of
               None \<Rightarrow> (sessionToSocket st)(sid \<mapsto> sock)
             | Some p \<Rightarrow> if truthy p then sessionToSocket st else (sessionToSocket st)(sid \<mapsto> sock)) \<rparr>"

text \<open>Socket.IO, before the connection handler runs: the socket is registered and joins
  the room named by its own id.\<close>

definition socketOpen :: "string \<Rightarrow> state \<Rightarrow> state" where
  "socketOpen sock st = socketJoin sock sock (st\<lparr> sockets := insert sock (sockets st) \<rparr>)"

text \<open>Socket.IO, before the disconnect handler runs: the socket has left every room and is
  no longer among the connected sockets.\<close>

definition socketClose :: "string \<Rightarrow> state \<Rightarrow> state" where
  "socketClose sock st =
     st\<lparr> sockets := sockets st - {sock},
         adapterRooms := (\<lambda>r. adapterRooms st r - {sock}) \<rparr>"

definition on_connection ::
  "state \<Rightarrow> string \<Rightarrow> string option \<Rightarrow> string option \<Rightarrow> error + state \<times> emission list" where
  "on_connection st sock authSessionId roomIdFromAuth =
     (let st0 = socketOpen sock st
      in case authSessionId of
           None \<Rightarrow> Inr (st0, [])
         | Some sid \<Rightarrow>
             if \<not> truthy sid then Inr (st0, [])
             else
               (let st1 = registerSocket st0 sock sid
                in case (case roomIdFromAuth of None \<Rightarrow> None
                         | Some r \<Rightarrow> if truthy r then Some r else None) of
                     Some r \<Rightarrow> Inr (joinRoom st1 sock sid r)
                   | None \<Rightarrow>
                       (case userRooms st1 sid of
                          None \<Rightarrow> Inr (st1, [])
                        | Some roomId \<Rightarrow>
                            if \<not> truthy roomId then Inr (st1, [])
                            else
                              (let st2 = socketJoin sock roomId st1
                               in case getRoom st2 roomId of
                                    None \<Rightarrow> Inl TypeError
                                  | Some rd \<Rightarrow>
                                      (let st3 = attachSocket sock roomId rd st2
                                       in case pendingRoomCleanups st3 roomId of
                                            None \<Rightarrow> Inr (st3, [])
                                          | Some c \<Rightarrow>
                                              if c_sessionId c = sid
                                              then Inr (cancelCleanup roomId c st3, [])
                                              else Inr (st3, []))))))"

definition on_session_info ::
  "state \<Rightarrow> string \<Rightarrow> string \<Rightarrow> string option \<Rightarrow> state \<times> emission list" where
  "on_session_info st sock sid roomIdOpt =
     (let st1 = (if truthy sid \<and> userSessions st sock \<noteq> Some sid
                 then registerSocket st sock sid else st)
      in case roomIdOpt of
           None \<Rightarrow> (st1, [])
         | Some roomId \<Rightarrow>
             if truthy roomId \<and> userRooms st1 sid \<noteq> Some roomId
             then joinRoom st1 sock sid roomId
             else (st1, []))"

definition on_leave_room :: "state \<Rightarrow> string \<Rightarrow> string \<Rightarrow> state \<times> emission list" where
  "on_leave_room st sock roomId = handleUserLeaveRoom st sock roomId"

text \<open>The first part of the disconnect handler: the session's connection list and its
  primary socket.\<close>

definition dropConnection :: "state \<Rightarrow> string \<Rightarrow> string \<Rightarrow> string list \<Rightarrow> state \<times> emission list" where
  "dropConnection st sock sid conns =
     (let conns' = spliceOut sock conns;
          sa = st\<lparr> sessionConnections := (sessionConnections st)(sid \<mapsto> conns') \<rparr>;
          sb = (if sessionToSocket sa sid = Some sock then
                  (case conns' of
                     c # _ \<Rightarrow> sa\<lparr> sessionToSocket := (sessionToSocket sa)(sid \<mapsto> c) \<rparr>
                   | [] \<Rightarrow> sa\<lparr> sessionToSocket := (sessionToSocket sa)(sid := None) \<rparr>)
                else sa)
      in if conns' = [] then
           (let sc = sb\<lparr> sessionConnections := (sessionConnections sb)(sid := None) \<rparr>
            in case userRooms sc sid of
                 None \<Rightarrow> (sc, [])
               | Some roomId \<Rightarrow>
                   if truthy roomId then handleSessionLeaveRoom sc sid roomId else (sc, []))
         else (sb, []))"

definition on_disconnect :: "state \<Rightarrow> string \<Rightarrow> state \<times> emission list" where
  "on_disconnect st sock =
     (let st0 = socketClose sock st;
          res = (case sessionOf st0 sock of
                   None \<Rightarrow> (st0, [])
                 | Some sid \<Rightarrow>
                     (case sessionConnections st0 sid of
                        None \<Rightarrow> (st0, [])
                      | Some conns \<Rightarrow> dropConnection st0 sock sid conns));
          st1 = fst res;
          st2 = st1\<lparr> rooms := map (\<lambda>(roomId, roomData).
                          (roomId, roomData\<lparr> socketIds := spliceOut sock (socketIds roomData) \<rparr>))
                        (rooms st1) \<rparr>
      in (st2\<lparr> userSessions := (userSessions st2)(sock := None) \<rparr>, snd res))"

subsection \<open>Relay handlers\<close>

text \<open>
  \<^verbatim>\<open>const { offer, roomId } = data\<close> throws on \<^verbatim>\<open>undefined\<close> and
  \<^verbatim>\<open>null\<close>; on any other value a missing property reads as \<^verbatim>\<open>undefined\<close>.
  The payload sent on is \<^verbatim>\<open>{...offer, fromSocketId, fromSessionId}\<close>.
\<close>

definition stamped :: "state \<Rightarrow> string \<Rightarrow> json \<Rightarrow> json" where
  "stamped st sock body =
     JObj (assignAll (ownProps body @
             [(''fromSocketId'', JStr sock), (''fromSessionId'', optStr (userSessions st sock))]) [])"

definition on_offer :: "state \<Rightarrow> string \<Rightarrow> json \<Rightarrow> error + emission list" where
  "on_offer st sock data =
     (if data = JUndefined \<or> data = JNull then Inl TypeError
      else (let offer = member data ''offer''; roomId = member data ''roomId''
            in Inr [Emit (ToRoomExcept roomId sock) ''offer'' (stamped st sock offer)]))"

definition on_answer :: "state \<Rightarrow> string \<Rightarrow> json \<Rightarrow> error + emission list" where
  "on_answer st sock data =
     (if data = JUndefined \<or> data = JNull then Inl TypeError
      else (let answer = member data ''answer''; roomId = member data ''roomId''
            in Inr [Emit (ToRoomExcept roomId sock) ''answer'' (stamped st sock answer)]))"

definition on_ice_candidate :: "state \<Rightarrow> string \<Rightarrow> json \<Rightarrow> error + emission list" where
  "on_ice_candidate st sock data =
     (if data = JUndefined \<or> data = JNull then Inl TypeError
      else (let candidate = member data ''candidate''; roomId = member data ''roomId''
            in Inr [Emit (ToRoomExcept roomId sock) ''ice-candidate'' (stamped st sock candidate)]))"

definition on_media_permissions :: "state \<Rightarrow> string \<Rightarrow> json \<Rightarrow> emission list" where
  "on_media_permissions st sock permissions =
     (case sessionOf st sock of
        None \<Rightarrow> []
      | Some sid \<Rightarrow>
          (case userRooms st sid of
             None \<Rightarrow> []
           | Some roomId \<Rightarrow>
               if truthy roomId then
                 [Emit (ToRoomExcept (JStr roomId) sock) ''user-media-permissions''
                    (JObj [(''userId'', JStr sock), (''sessionId'', JStr sid),
                           (''permissions'', permissions)])]
               else []))"

subsection \<open>speech-to-text\<close>

text \<open>
  \<^verbatim>\<open>Object.entries\<close> lists the keys that are array indices first, in ascending
  numeric order, and then the other keys in insertion order.
\<close>

definition isDigit :: "char \<Rightarrow> bool" where
  "isDigit c \<longleftrightarrow> 48 \<le> (of_char c :: nat) \<and> (of_char c :: nat) \<le> 57"

definition digitsValue :: "string \<Rightarrow> nat" where
  "digitsValue s = foldl (\<lambda>a c. 10 * a + ((of_char c :: nat) - 48)) 0 s"

definition arrayIndex :: "string \<Rightarrow> nat option" where
  "arrayIndex s =
     (if s \<noteq> [] \<and> list_all isDigit s \<and> (length s = 1 \<or> hd s \<noteq> CHR ''0'')
         \<and> digitsValue s < 4294967295
      then Some (digitsValue s) else None)"

definition objectEntries :: "(string \<times> 'v) list \<Rightarrow> (string \<times> 'v) list" where
  "objectEntries al =
     sort_key (\<lambda>kv. case arrayIndex (fst kv) of Some n \<Rightarrow> n | None \<Rightarrow> 0)
       (filter (\<lambda>kv. arrayIndex (fst kv) \<noteq> None) al)
     @ filter (\<lambda>kv. arrayIndex (fst kv) = None) al"

text \<open>\<^verbatim>\<open>String.prototype.trim\<close> on code units below 256.\<close>

definition isSpace :: "char \<Rightarrow> bool" where
  "isSpace c \<longleftrightarrow> (of_char c :: nat) \<in> {9, 10, 11, 12, 13, 32, 160}"

definition trim :: "string \<Rightarrow> string" where
  "trim s = rev (dropWhile isSpace (rev (dropWhile isSpace s)))"

record speechData =
  audioChunk :: string
  mimeType :: "string option"
  language :: string

text \<open>What \<^verbatim>\<open>await transcribeAudio(audioBuffer, config)\<close> gives back.\<close>

datatype transcribed = Returned string | Thrown

text \<open>The room the handler settles on; \<open>None\<close> when \<^verbatim>\<open>!userRoomId\<close>.\<close>

definition findUserRoom :: "state \<Rightarrow> string \<Rightarrow> string option" where
  "findUserRoom st sock =
     (let viaSession = (case sessionOf st sock of None \<Rightarrow> None | Some sid \<Rightarrow> userRooms st sid);
          scan = map_option fst
                   (find (\<lambda>(roomId, roomData). sock \<in> set (socketIds roomData))
                      (objectEntries (rooms st)));
          userRoomId = (case viaSession of
                          None \<Rightarrow> scan
                        | Some r \<Rightarrow> if truthy r then Some r else scan)
      in case userRoomId of
           None \<Rightarrow> None
         | Some r \<Rightarrow> if truthy r then Some r else None)"

definition transcriptionPayload :: "state \<Rightarrow> string \<Rightarrow> string \<Rightarrow> string \<Rightarrow> bool \<Rightarrow> json" where
  "transcriptionPayload st sock text lang own =
     JObj [(''transcription'', JStr text), (''userId'', JStr sock),
           (''sessionId'', optStr (userSessions st sock)), (''language'', JStr lang),
           (''isOwnMessage'', JBool own)]"

text \<open>
  \<open>bufferLength\<close> is the length of \<^verbatim>\<open>Buffer.from(data.audioChunk, "base64")\<close> and
  \<open>outcome\<close> what the transcription service answers. The recognition configuration chosen
  from \<open>mimeType\<close> goes to that service only, and is not part of the model.
\<close>

definition on_speech_to_text ::
  "state \<Rightarrow> string \<Rightarrow> speechData \<Rightarrow> nat \<Rightarrow> transcribed \<Rightarrow> emission list" where
  "on_speech_to_text st sock data bufferLength outcome =
     (case findUserRoom st sock of
        None \<Rightarrow> []
      | Some userRoomId \<Rightarrow>
          if audioChunk data = [] then []
          else if bufferLength = 0 then []
          else (case outcome of
                  Thrown \<Rightarrow> []
                | Returned transcription \<Rightarrow>
                    if transcription \<noteq> [] \<and> trim transcription \<noteq> [] then
                      [Emit (ToRoomExcept (JStr userRoomId) sock) ''transcription''
                         (transcriptionPayload st sock transcription (language data) False),
                       Emit (ToSocket sock) ''transcription''
                         (transcriptionPayload st sock transcription (language data) True)]
                    else []))"

subsection \<open>Events and runs\<close>

datatype event =
    Connection string "string option" "string option"
  | SessionInfo string string "string option"
  | MediaPermissions string json
  | CreateRoom string string
  | JoinRoom string string
  | SpeechToText string speechData nat transcribed
  | Offer string json
  | Answer string json
  | IceCandidate string json
  | LeaveRoom string string
  | Disconnect string
  | TimeoutFires nat
  | CheckRoom string

fun step :: "state \<Rightarrow> event \<Rightarrow> error + state \<times> emission list" where
  "step st (Connection sock a r) = on_connection st sock a r"
| "step st (SessionInfo sock sid r) = Inr (on_session_info st sock sid r)"
| "step st (MediaPermissions sock p) = Inr (st, on_media_permissions st sock p)"
| "step st (CreateRoom sock r) = Inr (on_create_room st sock r)"
| "step st (JoinRoom sock r) = Inr (on_join_room st sock r)"
| "step st (SpeechToText sock d n out) = Inr (st, on_speech_to_text st sock d n out)"
| "step st (Offer sock d) = map_sum id (Pair st) (on_offer st sock d)"
| "step st (Answer sock d) = map_sum id (Pair st) (on_answer st sock d)"
| "step st (IceCandidate sock d) = map_sum id (Pair st) (on_ice_candidate st sock d)"
| "step st (LeaveRoom sock r) = Inr (on_leave_room st sock r)"
| "step st (Disconnect sock) = Inr (on_disconnect st sock)"
| "step st (TimeoutFires tid) = Inr (fireTimeout st tid, [])"
| "step st (CheckRoom r) = Inr (fst (checkRoom st r), [])"

fun exec :: "state \<Rightarrow> event list \<Rightarrow> error + state" where
  "exec st [] = Inr st"
| "exec st (e # es) = (case step st e of Inl err \<Rightarrow> Inl err | Inr res \<Rightarrow> exec (fst res) es)"

section \<open>Invariants and scenarios\<close>

text \<open>
  \<open>capOk\<close> is the capacity invariant of the room table. \<open>noGrowth\<close> relates two states
  when no room of the second has gained an occupant, and \<open>staysOccupied\<close> when every
  occupied room of the first is occupied in the second. \<open>timersOk\<close> says that every timer
  handle in use was handed out by \<open>setTimeout\<close>. \<open>roomsKnown\<close> says that the room
  recorded for a session is in the room table and lists the session. \<open>scheduledFor\<close> says
  that, between two states, a clean-up of the room was scheduled for its one occupant and
  the timer of the clean-up pending before was cleared. \<open>timerView\<close> is the part of the
  state that timers and room deletion depend on. \<open>tracksNowhere\<close> says that neither
  the session of a socket nor any room's socket list places the socket in a room.
  \<open>stateAfter\<close> is the state reached from the empty tables by a list of events.
\<close>

definition capOk :: "state \<Rightarrow> bool" where
  "capOk st \<longleftrightarrow> (\<forall>r rd. getRoom st r = Some rd \<longrightarrow>
      length (sessionIds rd) \<le> MAX_USERS_PER_ROOM \<and> distinct (sessionIds rd))"

definition noGrowth :: "state \<Rightarrow> state \<Rightarrow> bool" where
  "noGrowth st st' \<longleftrightarrow> (\<forall>r rd'. getRoom st' r = Some rd' \<longrightarrow>
     (\<exists>rd. getRoom st r = Some rd \<and>
        (sessionIds rd' = sessionIds rd \<or> (\<exists>x. sessionIds rd' = remove1 x (sessionIds rd)))))"

definition timersOk :: "state \<Rightarrow> bool" where
  "timersOk st \<longleftrightarrow>
     (\<forall>tid t. timeouts st tid = Some t \<longrightarrow> tid < nextTimeout st) \<and>
     (\<forall>r c. pendingRoomCleanups st r = Some c \<longrightarrow> c_timeoutId c < nextTimeout st)"

definition tracksNowhere :: "state \<Rightarrow> string \<Rightarrow> bool" where
  "tracksNowhere st sock \<longleftrightarrow>
     (case sessionOf st sock of None \<Rightarrow> True | Some sid \<Rightarrow> userRooms st sid = None)
     \<and> list_all (\<lambda>(roomId, roomData). sock \<notin> set (socketIds roomData)) (rooms st)"

definition roomsKnown :: "state \<Rightarrow> bool" where
  "roomsKnown st \<longleftrightarrow> (\<forall>sid r. userRooms st sid = Some r \<longrightarrow>
      (\<exists>rd. getRoom st r = Some rd \<and> sid \<in> set (sessionIds rd)))"

text \<open>The events whose payload the handler can destructure.\<close>

fun wellFormed :: "event \<Rightarrow> bool" where
  "wellFormed (Offer sock d) = (d \<noteq> JUndefined \<and> d \<noteq> JNull)"
| "wellFormed (Answer sock d) = (d \<noteq> JUndefined \<and> d \<noteq> JNull)"
| "wellFormed (IceCandidate sock d) = (d \<noteq> JUndefined \<and> d \<noteq> JNull)"
| "wellFormed _ = True"

definition staysOccupied :: "state \<Rightarrow> state \<Rightarrow> bool" where
  "staysOccupied st st' \<longleftrightarrow> (\<forall>r rd. getRoom st r = Some rd \<longrightarrow> sessionIds rd \<noteq> [] \<longrightarrow>
     (\<exists>rd'. getRoom st' r = Some rd' \<and> sessionIds rd' \<noteq> []))"


definition timerView ::
  "state \<Rightarrow> (string \<Rightarrow> room option) \<times> (nat \<rightharpoonup> timer) \<times> (string \<rightharpoonup> cleanup) \<times> nat" where
  "timerView st = (getRoom st, timeouts st, pendingRoomCleanups st, nextTimeout st)"

definition stateAfter :: "event list \<Rightarrow> state" where
  "stateAfter evs = (case exec initial evs of Inr st \<Rightarrow> st | Inl err \<Rightarrow> initial)"

definition roomFull :: "string \<Rightarrow> string \<Rightarrow> emission" where
  "roomFull sock roomId = Emit (ToSocket sock) ''room-full'' (JObj [(''roomId'', JStr roomId)])"

text \<open>
  Runs used as examples. In \<open>twoInRoom\<close> the identities \<open>u1\<close> and \<open>u2\<close> occupy room
  \<open>R1\<close> through the sockets \<open>X\<close> and \<open>Y\<close>; in \<open>twoRooms\<close> the socket \<open>X\<close> then
  also creates room \<open>R2\<close>. In \<open>rejoined\<close> the identity \<open>u1\<close> joins \<open>R1\<close> alone, loses
  its only socket, and joins again through a new socket while the clean-up of \<open>R1\<close> is
  still pending. In \<open>leftSecondRoom\<close> the socket \<open>X\<close> creates \<open>R1\<close> and \<open>R2\<close>, leaves
  \<open>R2\<close>, and the clean-up of \<open>R2\<close> runs. Each \<open>...State\<close> is the tables the run ends in.
\<close>

definition twoInRoom :: "event list" where
  "twoInRoom = [Connection ''X'' (Some ''u1'') None, CreateRoom ''X'' ''R1'',
                Connection ''Y'' (Some ''u2'') None, JoinRoom ''Y'' ''R1'']"

definition rejoined :: "event list" where
  "rejoined = [Connection ''X'' (Some ''u1'') (Some ''R1''), Disconnect ''X'',
               Connection ''X2'' (Some ''u1'') (Some ''R1'')]"

definition twoInRoomState :: state where
  "twoInRoomState =
     \<lparr>rooms = [(''R1'', \<lparr>sessionIds = [''u1'', ''u2''], socketIds = [''X'', ''Y'']\<rparr>)],
      userRooms = [''u1'' \<mapsto> ''R1'', ''u2'' \<mapsto> ''R1''],
      sessionConnections = [''u1'' \<mapsto> [''X''], ''u2'' \<mapsto> [''Y'']],
      userSessions = [''X'' \<mapsto> ''u1'', ''Y'' \<mapsto> ''u2''],
      sessionToSocket = [''u1'' \<mapsto> ''X'', ''u2'' \<mapsto> ''Y''],
      pendingRoomCleanups = Map.empty,
      adapterRooms = (\<lambda>_. {})(''X'' := {''X''}, ''Y'' := {''Y''}, ''R1'' := {''X'', ''Y''}),
      sockets = {''X'', ''Y''}, timeouts = Map.empty, nextTimeout = 0\<rparr>"

definition rejoinedState :: state where
  "rejoinedState =
     \<lparr>rooms = [(''R1'', \<lparr>sessionIds = [''u1''], socketIds = [''X2'']\<rparr>)],
      userRooms = [''u1'' \<mapsto> ''R1''], sessionConnections = [''u1'' \<mapsto> [''X2'']],
      userSessions = [''X2'' \<mapsto> ''u1''], sessionToSocket = [''u1'' \<mapsto> ''X2''],
      pendingRoomCleanups = [''R1'' \<mapsto> \<lparr>c_sessionId = ''u1'', c_timeoutId = 0\<rparr>],
      adapterRooms = (\<lambda>_. {})(''X2'' := {''X2''}, ''R1'' := {''X2''}), sockets = {''X2''},
      timeouts = [0 \<mapsto> \<lparr>t_roomId = ''R1'', t_sessionId = ''u1'', t_delay = 20000\<rparr>],
      nextTimeout = 1\<rparr>"

definition twoRooms :: "event list" where
  "twoRooms = twoInRoom @ [CreateRoom ''X'' ''R2'']"

definition twoRoomsState :: state where
  "twoRoomsState =
     \<lparr>rooms = [(''R1'', \<lparr>sessionIds = [''u1'', ''u2''], socketIds = [''X'', ''Y'']\<rparr>),
               (''R2'', \<lparr>sessionIds = [''u1''], socketIds = [''X'']\<rparr>)],
      userRooms = [''u1'' \<mapsto> ''R2'', ''u2'' \<mapsto> ''R1''],
      sessionConnections = [''u1'' \<mapsto> [''X''], ''u2'' \<mapsto> [''Y'']],
      userSessions = [''X'' \<mapsto> ''u1'', ''Y'' \<mapsto> ''u2''],
      sessionToSocket = [''u1'' \<mapsto> ''X'', ''u2'' \<mapsto> ''Y''],
      pendingRoomCleanups = Map.empty,
      adapterRooms = (\<lambda>_. {})(''X'' := {''X''}, ''Y'' := {''Y''}, ''R1'' := {''X'', ''Y''},
                                 ''R2'' := {''X''}),
      sockets = {''X'', ''Y''}, timeouts = Map.empty, nextTimeout = 0\<rparr>"

definition leftSecondRoom :: "event list" where
  "leftSecondRoom = [Connection ''X'' (Some ''u1'') None, CreateRoom ''X'' ''R1'',
                     CreateRoom ''X'' ''R2'', LeaveRoom ''X'' ''R2'', TimeoutFires 0]"

definition leftSecondRoomState :: state where
  "leftSecondRoomState =
     \<lparr>rooms = [(''R1'', \<lparr>sessionIds = [''u1''], socketIds = [''X'']\<rparr>)],
      userRooms = Map.empty,
      sessionConnections = [''u1'' \<mapsto> [''X'']],
      userSessions = [''X'' \<mapsto> ''u1''],
      sessionToSocket = [''u1'' \<mapsto> ''X''],
      pendingRoomCleanups = Map.empty,
      adapterRooms = (\<lambda>_. {})(''X'' := {''X''}, ''R1'' := {''X''}),
      sockets = {''X''}, timeouts = Map.empty, nextTimeout = 1\<rparr>"

definition speechSample :: speechData where
  "speechSample = \<lparr> audioChunk = ''QUJD'', mimeType = Some ''audio/webm'', language = ''en-US'' \<rparr>"

section \<open>The room table\<close>

lemma getRoom_setRoom [simp]:
  "getRoom (setRoom r rd st) r' = (if r' = r then Some rd else getRoom st r')"
  by (simp add: getRoom_def setRoom_def update_conv')

lemma getRoom_deleteRoom [simp]:
  "getRoom (deleteRoom r st) r' = (if r' = r then None else getRoom st r')"
  by (simp add: getRoom_def deleteRoom_def delete_conv')

lemma getRoom_frame [simp]:
  "getRoom (st\<lparr>userRooms := a\<rparr>) = getRoom st"
  "getRoom (st\<lparr>sessionConnections := b\<rparr>) = getRoom st"
  "getRoom (st\<lparr>userSessions := c\<rparr>) = getRoom st"
  "getRoom (st\<lparr>sessionToSocket := d\<rparr>) = getRoom st"
  "getRoom (st\<lparr>pendingRoomCleanups := e\<rparr>) = getRoom st"
  "getRoom (st\<lparr>adapterRooms := f\<rparr>) = getRoom st"
  "getRoom (st\<lparr>sockets := g\<rparr>) = getRoom st"
  "getRoom (st\<lparr>timeouts := h\<rparr>) = getRoom st"
  "getRoom (st\<lparr>nextTimeout := i\<rparr>) = getRoom st"
  by (simp_all add: getRoom_def fun_eq_iff)

lemma getRoom_prims [simp]:
  "getRoom (socketJoin sock r st) = getRoom st"
  "getRoom (socketLeave sock r st) = getRoom st"
  "getRoom (socketOpen sock st) = getRoom st"
  "getRoom (socketClose sock st) = getRoom st"
  "getRoom (setTimeout r sid d st) = getRoom st"
  "getRoom (clearTimeout tid st) = getRoom st"
  "getRoom (cancelCleanup r c st) = getRoom st"
  "getRoom (registerSocket st sock sid) = getRoom st"
  by (simp_all add: socketJoin_def socketLeave_def socketOpen_def socketClose_def
      setTimeout_def clearTimeout_def cancelCleanup_def registerSocket_def getRoom_def fun_eq_iff)

lemma getRoom_attachSocket [simp]:
  "getRoom (attachSocket sock r rd st) r' =
     (if r' = r then Some (rd\<lparr>socketIds := pushNew sock (socketIds rd)\<rparr>) else getRoom st r')"
  by (simp add: attachSocket_def)

lemma getRoom_joinRoom:
  "getRoom (fst (joinRoom st sock sid r)) r' =
     (if r' \<noteq> r then getRoom st r'
      else (let rd = (case getRoom st r of None \<Rightarrow> emptyRoom | Some x \<Rightarrow> x) in
         if sid \<in> set (sessionIds rd) then Some (rd\<lparr>socketIds := pushNew sock (socketIds rd)\<rparr>)
         else if MAX_USERS_PER_ROOM \<le> length (sessionIds rd) then Some rd
         else Some (rd\<lparr>sessionIds := sessionIds rd @ [sid], socketIds := pushNew sock (socketIds rd)\<rparr>)))"
  by (auto simp: joinRoom_def Let_def emptyRoom_def MAX_USERS_PER_ROOM_def split: option.splits)

lemma capOk_joinRoom:
  assumes "capOk st"
  shows "capOk (fst (joinRoom st sock sid r))"
  unfolding capOk_def
proof (intro allI impI)
  fix r' rd'
  assume g: "getRoom (fst (joinRoom st sock sid r)) r' = Some rd'"
  show "length (sessionIds rd') \<le> MAX_USERS_PER_ROOM \<and> distinct (sessionIds rd')"
  proof (cases "r' = r")
    case False
    with g have "getRoom st r' = Some rd'" by (simp add: getRoom_joinRoom)
    with assms show ?thesis by (simp add: capOk_def)
  next
    case True
    show ?thesis
    proof (cases "getRoom st r")
      case None
      with g True show ?thesis
        by (auto simp: getRoom_joinRoom Let_def emptyRoom_def MAX_USERS_PER_ROOM_def split: if_splits)
    next
      case (Some rd)
      with assms have "length (sessionIds rd) \<le> MAX_USERS_PER_ROOM \<and> distinct (sessionIds rd)"
        by (simp add: capOk_def)
      with g True Some show ?thesis
        by (auto simp: getRoom_joinRoom Let_def split: if_splits)
    qed
  qed
qed

lemma capOk_noGrowth:
  assumes "capOk st" "noGrowth st st'"
  shows "capOk st'"
  unfolding capOk_def
proof (intro allI impI)
  fix r rd'
  assume "getRoom st' r = Some rd'"
  with assms(2) obtain rd where rd: "getRoom st r = Some rd"
    and s: "sessionIds rd' = sessionIds rd \<or> (\<exists>x. sessionIds rd' = remove1 x (sessionIds rd))"
    unfolding noGrowth_def by blast
  from assms(1) rd have c: "length (sessionIds rd) \<le> MAX_USERS_PER_ROOM" "distinct (sessionIds rd)"
    by (simp_all add: capOk_def)
  from s show "length (sessionIds rd') \<le> MAX_USERS_PER_ROOM \<and> distinct (sessionIds rd')"
  proof
    assume "sessionIds rd' = sessionIds rd"
    with c show ?thesis by simp
  next
    assume "\<exists>x. sessionIds rd' = remove1 x (sessionIds rd)"
    then obtain x where x: "sessionIds rd' = remove1 x (sessionIds rd)" ..
    have "length (remove1 x (sessionIds rd)) \<le> length (sessionIds rd)"
      by (simp add: length_remove1)
    with c x show ?thesis by simp
  qed
qed

lemma getRoom_handleSessionLeaveRoom:
  "getRoom (fst (handleSessionLeaveRoom st sid r)) r' =
     (if r' = r then map_option (\<lambda>rd. rd\<lparr>sessionIds := spliceOut sid (sessionIds rd)\<rparr>) (getRoom st r)
      else getRoom st r')"
  by (auto simp: handleSessionLeaveRoom_def Let_def spliceOut_def remove1_idem split: option.splits)

lemma noGrowth_handleSessionLeaveRoom: "noGrowth st (fst (handleSessionLeaveRoom st sid r))"
  unfolding noGrowth_def
  by (auto simp: getRoom_handleSessionLeaveRoom spliceOut_def split: if_splits)

lemma getRoom_handleUserLeaveRoom:
  "getRoom (fst (handleUserLeaveRoom st sock r)) r' = Some rd' \<Longrightarrow>
     \<exists>rd. getRoom st r' = Some rd \<and>
       (sessionIds rd' = sessionIds rd \<or> (\<exists>x. sessionIds rd' = remove1 x (sessionIds rd)))"
  by (auto simp: handleUserLeaveRoom_def Let_def getRoom_handleSessionLeaveRoom spliceOut_def
      split: option.splits if_splits)

lemma noGrowth_handleUserLeaveRoom: "noGrowth st (fst (handleUserLeaveRoom st sock r))"
  unfolding noGrowth_def using getRoom_handleUserLeaveRoom by blast

lemma getRoom_cleanupCallback:
  "getRoom (cleanupCallback r st) r' =
     (if r' = r \<and> (\<exists>rd. getRoom st r = Some rd \<and> sessionIds rd = []) then None else getRoom st r')"
  by (auto simp: cleanupCallback_def split: option.splits)

lemma getRoom_fireTimeout:
  "getRoom (fireTimeout st tid) r' =
     (case timeouts st tid of
        None \<Rightarrow> getRoom st r'
      | Some t \<Rightarrow> if r' = t_roomId t \<and> (\<exists>rd. getRoom st r' = Some rd \<and> sessionIds rd = [])
                  then None else getRoom st r')"
  by (auto simp: fireTimeout_def getRoom_cleanupCallback split: option.splits)

lemma noGrowth_fireTimeout: "noGrowth st (fireTimeout st tid)"
  unfolding noGrowth_def
  by (auto simp: getRoom_fireTimeout split: option.splits if_splits)

lemma getRoom_dropConnection:
  "getRoom (fst (dropConnection st sock sid conns)) r' = Some rd' \<Longrightarrow>
     \<exists>rd. getRoom st r' = Some rd \<and> socketIds rd' = socketIds rd \<and>
       (sessionIds rd' = sessionIds rd \<or> sessionIds rd' = remove1 sid (sessionIds rd))"
  by (auto simp: dropConnection_def Let_def getRoom_handleSessionLeaveRoom spliceOut_def
      split: option.splits if_splits list.splits)

lemma getRoom_swept:
  "getRoom (st\<lparr>rooms := map (\<lambda>(k, rd). (k, g rd)) (rooms st)\<rparr>) r = map_option g (getRoom st r)"
  by (simp add: getRoom_def map_of_map)

lemma getRoom_on_disconnect:
  "getRoom (fst (on_disconnect st sock)) r' = Some rd' \<Longrightarrow>
     \<exists>rd. getRoom st r' = Some rd \<and>
       (sessionIds rd' = sessionIds rd \<or> (\<exists>x. sessionIds rd' = remove1 x (sessionIds rd)))"
proof -
  assume a: "getRoom (fst (on_disconnect st sock)) r' = Some rd'"
  let ?res = "case sessionOf (socketClose sock st) sock of
                None \<Rightarrow> (socketClose sock st, [])
              | Some sid \<Rightarrow>
                  (case sessionConnections (socketClose sock st) sid of
                     None \<Rightarrow> (socketClose sock st, [])
                   | Some conns \<Rightarrow> dropConnection (socketClose sock st) sock sid conns)"
  have "getRoom (fst (on_disconnect st sock)) r' =
          map_option (\<lambda>rd. rd\<lparr>socketIds := spliceOut sock (socketIds rd)\<rparr>) (getRoom (fst ?res) r')"
    by (simp add: on_disconnect_def Let_def getRoom_swept)
  with a obtain rd1 where rd1: "getRoom (fst ?res) r' = Some rd1"
    and s1: "sessionIds rd' = sessionIds rd1" by auto
  from rd1 have "\<exists>rd. getRoom st r' = Some rd \<and>
       (sessionIds rd1 = sessionIds rd \<or> (\<exists>x. sessionIds rd1 = remove1 x (sessionIds rd)))"
    by (auto split: option.splits dest!: getRoom_dropConnection)
  with s1 show ?thesis by simp
qed

lemma noGrowth_on_disconnect: "noGrowth st (fst (on_disconnect st sock))"
  unfolding noGrowth_def using getRoom_on_disconnect by blast

lemma capOk_frame:
  "getRoom st' = getRoom st \<Longrightarrow> capOk st \<Longrightarrow> capOk st'"
  by (simp add: capOk_def)

lemma capOk_registerSocket: "capOk st \<Longrightarrow> capOk (registerSocket st sock sid)"
  by (simp add: capOk_def)

lemma capOk_socketOpen: "capOk st \<Longrightarrow> capOk (socketOpen sock st)"
  by (simp add: capOk_def)

lemma capOk_on_connection:
  assumes "capOk st" "on_connection st sock a r = Inr res"
  shows "capOk (fst res)"
proof -
  have o: "capOk (socketOpen sock st)" using assms(1) by (rule capOk_socketOpen)
  show ?thesis
  proof (cases "\<exists>sid. a = Some sid \<and> truthy sid")
    case False
    with assms(2) o show ?thesis
      by (auto simp: on_connection_def Let_def split: option.splits)
  next
    case True
    then obtain sid where sid: "a = Some sid" "truthy sid" by blast
    let ?s1 = "registerSocket (socketOpen sock st) sock sid"
    have r1: "capOk ?s1" using o by (rule capOk_registerSocket)
    show ?thesis
    proof (cases "\<exists>rid. r = Some rid \<and> truthy rid")
      case True
      then obtain rid where "r = Some rid" "truthy rid" by blast
      with assms(2) sid have "res = joinRoom ?s1 sock sid rid"
        by (simp add: on_connection_def Let_def)
      with r1 show ?thesis by (simp add: capOk_joinRoom)
    next
      case False
      then have nr: "(case r of None \<Rightarrow> None | Some x \<Rightarrow> if truthy x then Some x else None) = None"
        by (auto split: option.splits)
      have "noGrowth ?s1 (fst res)"
        using assms(2) sid nr
        by (auto simp: on_connection_def Let_def noGrowth_def split: option.splits if_splits)
      with r1 show ?thesis by (rule capOk_noGrowth)
    qed
  qed
qed

lemma capOk_on_session_info: "capOk st \<Longrightarrow> capOk (fst (on_session_info st sock sid r))"
  by (auto simp: on_session_info_def Let_def capOk_joinRoom capOk_registerSocket split: option.splits)

lemma capOk_on_create_room: "capOk st \<Longrightarrow> capOk (fst (on_create_room st sock r))"
  by (auto simp: on_create_room_def Let_def capOk_joinRoom split: option.splits)

lemma capOk_on_join_room: "capOk st \<Longrightarrow> capOk (fst (on_join_room st sock r))"
  by (auto simp: on_join_room_def Let_def capOk_joinRoom split: option.splits)

lemma capOk_step:
  assumes "capOk st" "step st ev = Inr res"
  shows "capOk (fst res)"
proof (cases ev)
  case (Connection sock a r)
  with assms show ?thesis by (auto intro: capOk_on_connection)
next
  case (SessionInfo sock sid r)
  with assms show ?thesis by (auto simp: capOk_on_session_info)
next
  case (CreateRoom sock r)
  with assms show ?thesis by (auto simp: capOk_on_create_room)
next
  case (JoinRoom sock r)
  with assms show ?thesis by (auto simp: capOk_on_join_room)
next
  case (LeaveRoom sock r)
  with assms show ?thesis
    using capOk_noGrowth[OF _ noGrowth_handleUserLeaveRoom] by (auto simp: on_leave_room_def)
next
  case (Disconnect sock)
  with assms show ?thesis using capOk_noGrowth[OF _ noGrowth_on_disconnect] by auto
next
  case (TimeoutFires tid)
  with assms show ?thesis using capOk_noGrowth[OF _ noGrowth_fireTimeout] by auto
next
  case (CheckRoom r)
  with assms show ?thesis by (auto simp: checkRoom_def Let_def split: lookup.splits)
qed (use assms in \<open>auto simp: map_sum_def split: sum.splits\<close>)

lemma exec_invariant:
  assumes "\<And>s e res. P s \<Longrightarrow> step s e = Inr res \<Longrightarrow> P (fst res)"
  shows "P st \<Longrightarrow> exec st evs = Inr st' \<Longrightarrow> P st'"
proof (induction evs arbitrary: st)
  case Nil
  then show ?case by simp
next
  case (Cons e es)
  from Cons.prems(2) obtain res where r: "step st e = Inr res" and e: "exec (fst res) es = Inr st'"
    by (auto split: sum.splits)
  from assms[OF Cons.prems(1) r] have "P (fst res)" .
  from Cons.IH[OF this e] show ?case .
qed

lemma capOk_initial: "capOk initial"
  by (simp add: capOk_def getRoom_def initial_def)

lemma capOk_exec:
  assumes "exec initial evs = Inr st"
  shows "capOk st"
proof (rule exec_invariant[where P = capOk, OF _ capOk_initial assms])
  fix s e res
  assume "capOk s" "step s e = Inr res"
  then show "capOk (fst res)" by (rule capOk_step)
qed

lemma joinRoom_full:
  assumes "getRoom st roomId = Some rd" "MAX_USERS_PER_ROOM \<le> length (sessionIds rd)"
    "sid \<notin> set (sessionIds rd)"
  shows "joinRoom st sock sid roomId = (socketJoin sock roomId st, [roomFull sock roomId])"
  using assms by (simp add: joinRoom_def Let_def roomFull_def)

lemma joinRoom_present:
  assumes "getRoom st roomId = Some rd" "sid \<in> set (sessionIds rd)"
  shows "joinRoom st sock sid roomId =
           (attachSocket sock roomId rd (socketJoin sock roomId st), [])"
  using assms by (simp add: joinRoom_def Let_def)

section \<open>Runs do not throw\<close>

text \<open>
  The connection handler reads \<^verbatim>\<open>rooms[roomId].socketIds\<close> for the room recorded
  for the session, without a test. The room is always there, so no list of events with
  well-formed relay payloads ends in a \<open>TypeError\<close>.
\<close>

lemma roomsKnownD:
  "roomsKnown st \<Longrightarrow> userRooms st sid = Some r \<Longrightarrow>
     \<exists>rd. getRoom st r = Some rd \<and> sid \<in> set (sessionIds rd)"
  by (simp add: roomsKnown_def)

lemma roomsKnownI:
  "(\<And>sid r. userRooms st sid = Some r \<Longrightarrow>
      \<exists>rd. getRoom st r = Some rd \<and> sid \<in> set (sessionIds rd)) \<Longrightarrow> roomsKnown st"
  by (simp add: roomsKnown_def)

lemma roomsKnown_update [simp]:
  "roomsKnown (st\<lparr>sessionConnections := c\<rparr>) = roomsKnown st"
  "roomsKnown (st\<lparr>userSessions := d\<rparr>) = roomsKnown st"
  "roomsKnown (st\<lparr>sessionToSocket := e\<rparr>) = roomsKnown st"
  "roomsKnown (st\<lparr>pendingRoomCleanups := p\<rparr>) = roomsKnown st"
  "roomsKnown (st\<lparr>adapterRooms := f\<rparr>) = roomsKnown st"
  "roomsKnown (st\<lparr>sockets := g\<rparr>) = roomsKnown st"
  "roomsKnown (st\<lparr>timeouts := h\<rparr>) = roomsKnown st"
  "roomsKnown (st\<lparr>nextTimeout := i\<rparr>) = roomsKnown st"
  by (simp_all add: roomsKnown_def)

lemma roomsKnown_prims [simp]:
  "roomsKnown (socketJoin sock r st) = roomsKnown st"
  "roomsKnown (socketLeave sock r st) = roomsKnown st"
  "roomsKnown (socketOpen sock st) = roomsKnown st"
  "roomsKnown (socketClose sock st) = roomsKnown st"
  "roomsKnown (setTimeout r sid d st) = roomsKnown st"
  "roomsKnown (clearTimeout tid st) = roomsKnown st"
  "roomsKnown (cancelCleanup r c st) = roomsKnown st"
  "roomsKnown (registerSocket st sock sid) = roomsKnown st"
  by (simp_all add: socketJoin_def socketLeave_def socketOpen_def socketClose_def
      setTimeout_def clearTimeout_def cancelCleanup_def registerSocket_def)

lemma userRooms_prims [simp]:
  "userRooms (setRoom r rd st) = userRooms st"
  "userRooms (deleteRoom r st) = userRooms st"
  "userRooms (attachSocket sock r rd st) = userRooms st"
  "userRooms (socketJoin sock r st) = userRooms st"
  "userRooms (socketLeave sock r st) = userRooms st"
  "userRooms (setTimeout r sid d st) = userRooms st"
  "userRooms (cancelCleanup r c st) = userRooms st"
  by (simp_all add: setRoom_def deleteRoom_def attachSocket_def socketJoin_def socketLeave_def
      setTimeout_def cancelCleanup_def clearTimeout_def)

lemma roomsKnown_attach:
  assumes "roomsKnown st" "getRoom st r = Some rd"
  shows "roomsKnown (attachSocket sock r rd st)"
proof (rule roomsKnownI)
  fix sid r'
  assume "userRooms (attachSocket sock r rd st) sid = Some r'"
  then have "userRooms st sid = Some r'" by simp
  from roomsKnownD[OF assms(1) this] assms(2)
  show "\<exists>rd'. getRoom (attachSocket sock r rd st) r' = Some rd' \<and> sid \<in> set (sessionIds rd')"
    by auto
qed

lemma userRooms_joinRoom:
  "userRooms (fst (joinRoom st sock sid r)) sid' = Some r' \<Longrightarrow>
     userRooms st sid' = Some r' \<or> (sid' = sid \<and> r' = r \<and>
        (\<exists>rd. getRoom (fst (joinRoom st sock sid r)) r = Some rd \<and> sid \<in> set (sessionIds rd)))"
  by (auto simp: joinRoom_def Let_def emptyRoom_def split: option.splits if_splits)

lemma sessions_joinRoom:
  assumes "getRoom st r' = Some rd" "x \<in> set (sessionIds rd)"
  shows "\<exists>rd'. getRoom (fst (joinRoom st sock sid r)) r' = Some rd' \<and> x \<in> set (sessionIds rd')"
  using assms by (auto simp: getRoom_joinRoom Let_def)

lemma roomsKnown_joinRoom:
  assumes "roomsKnown st"
  shows "roomsKnown (fst (joinRoom st sock sid r))"
  unfolding roomsKnown_def
proof (intro allI impI)
  fix sid' r'
  assume "userRooms (fst (joinRoom st sock sid r)) sid' = Some r'"
  from userRooms_joinRoom[OF this]
  show "\<exists>rd. getRoom (fst (joinRoom st sock sid r)) r' = Some rd \<and> sid' \<in> set (sessionIds rd)"
  proof
    assume "userRooms st sid' = Some r'"
    with assms obtain rd where "getRoom st r' = Some rd" "sid' \<in> set (sessionIds rd)"
      by (auto simp: roomsKnown_def)
    then show ?thesis by (rule sessions_joinRoom)
  next
    assume "sid' = sid \<and> r' = r \<and>
        (\<exists>rd. getRoom (fst (joinRoom st sock sid r)) r = Some rd \<and> sid \<in> set (sessionIds rd))"
    then show ?thesis by auto
  qed
qed

lemma userRooms_handleSessionLeaveRoom:
  "userRooms (fst (handleSessionLeaveRoom st sid r)) =
     (if (\<exists>rd. getRoom st r = Some rd \<and> sid \<in> set (sessionIds rd))
      then (userRooms st)(sid := None) else userRooms st)"
  by (auto simp: handleSessionLeaveRoom_def Let_def split: option.splits)

lemma roomsKnown_handleSessionLeaveRoom:
  assumes "roomsKnown st"
  shows "roomsKnown (fst (handleSessionLeaveRoom st sid r))"
proof (rule roomsKnownI)
  fix sid' r'
  assume a: "userRooms (fst (handleSessionLeaveRoom st sid r)) sid' = Some r'"
  then have u: "userRooms st sid' = Some r'"
    by (auto simp: userRooms_handleSessionLeaveRoom split: if_splits)
  from roomsKnownD[OF assms this] obtain rd where rd: "getRoom st r' = Some rd" "sid' \<in> set (sessionIds rd)"
    by blast
  show "\<exists>rd'. getRoom (fst (handleSessionLeaveRoom st sid r)) r' = Some rd' \<and> sid' \<in> set (sessionIds rd')"
  proof (cases "r' = r")
    case False
    with rd show ?thesis by (simp add: getRoom_handleSessionLeaveRoom)
  next
    case True
    show ?thesis
    proof (cases "sid' = sid")
      case False
      with rd True show ?thesis
        by (simp add: getRoom_handleSessionLeaveRoom spliceOut_def)
    next
      case same: True
      with a rd True show ?thesis
        by (auto simp: userRooms_handleSessionLeaveRoom split: if_splits)
    qed
  qed
qed

lemma roomsKnown_setSockets:
  assumes "roomsKnown st" "getRoom st r = Some rd"
  shows "roomsKnown (setRoom r (rd\<lparr>socketIds := xs\<rparr>) st)"
proof (rule roomsKnownI)
  fix sid r'
  assume "userRooms (setRoom r (rd\<lparr>socketIds := xs\<rparr>) st) sid = Some r'"
  then have "userRooms st sid = Some r'" by simp
  from roomsKnownD[OF assms(1) this] assms(2)
  show "\<exists>rd'. getRoom (setRoom r (rd\<lparr>socketIds := xs\<rparr>) st) r' = Some rd' \<and> sid \<in> set (sessionIds rd')"
    by auto
qed

lemma roomsKnown_deleteEmpty:
  assumes "roomsKnown st" "getRoom st r = Some rd" "sessionIds rd = []"
  shows "roomsKnown (deleteRoom r st)"
proof (rule roomsKnownI)
  fix sid r'
  assume "userRooms (deleteRoom r st) sid = Some r'"
  then have "userRooms st sid = Some r'" by simp
  from roomsKnownD[OF assms(1) this] assms(2,3)
  show "\<exists>rd'. getRoom (deleteRoom r st) r' = Some rd' \<and> sid \<in> set (sessionIds rd')"
    by auto
qed

lemma roomsKnown_handleUserLeaveRoom:
  assumes "roomsKnown st"
  shows "roomsKnown (fst (handleUserLeaveRoom st sock r))"
  using assms
  by (auto simp: handleUserLeaveRoom_def Let_def roomsKnown_handleSessionLeaveRoom
      roomsKnown_setSockets roomsKnown_deleteEmpty split: option.splits)

lemma roomsKnown_fireTimeout:
  assumes "roomsKnown st"
  shows "roomsKnown (fireTimeout st tid)"
  using assms
  by (auto simp: fireTimeout_def cleanupCallback_def roomsKnown_deleteEmpty split: option.splits)

lemma roomsKnown_dropConnection:
  assumes "roomsKnown st"
  shows "roomsKnown (fst (dropConnection st sock sid conns))"
  using assms
  by (auto simp: dropConnection_def Let_def roomsKnown_handleSessionLeaveRoom
      split: option.splits list.splits)

lemma roomsKnown_swept:
  assumes "roomsKnown st"
  shows "roomsKnown (st\<lparr>rooms := map (\<lambda>(k, rd). (k, rd\<lparr>socketIds := g (socketIds rd)\<rparr>)) (rooms st)\<rparr>)"
proof (rule roomsKnownI)
  let ?st' = "st\<lparr>rooms := map (\<lambda>(k, rd). (k, rd\<lparr>socketIds := g (socketIds rd)\<rparr>)) (rooms st)\<rparr>"
  fix sid r
  assume "userRooms ?st' sid = Some r"
  then have "userRooms st sid = Some r" by simp
  from roomsKnownD[OF assms this] obtain rd where rd: "getRoom st r = Some rd" "sid \<in> set (sessionIds rd)"
    by blast
  have "getRoom ?st' r = map_option (\<lambda>rd. rd\<lparr>socketIds := g (socketIds rd)\<rparr>) (getRoom st r)"
    by (rule getRoom_swept)
  with rd show "\<exists>rd'. getRoom ?st' r = Some rd' \<and> sid \<in> set (sessionIds rd')" by simp
qed

lemma roomsKnown_on_disconnect:
  assumes "roomsKnown st"
  shows "roomsKnown (fst (on_disconnect st sock))"
proof -
  let ?res = "case sessionOf (socketClose sock st) sock of
                None \<Rightarrow> (socketClose sock st, [])
              | Some sid \<Rightarrow>
                  (case sessionConnections (socketClose sock st) sid of
                     None \<Rightarrow> (socketClose sock st, [])
                   | Some conns \<Rightarrow> dropConnection (socketClose sock st) sock sid conns)"
  have "roomsKnown (fst ?res)"
    using assms by (auto simp: roomsKnown_dropConnection split: option.splits)
  then have "roomsKnown ((fst ?res)\<lparr>rooms := map (\<lambda>(k, rd). (k, rd\<lparr>socketIds := spliceOut sock (socketIds rd)\<rparr>))
                 (rooms (fst ?res))\<rparr>)"
    by (rule roomsKnown_swept)
  then show ?thesis by (simp add: on_disconnect_def Let_def)
qed

lemma roomsKnown_on_session_info:
  "roomsKnown st \<Longrightarrow> roomsKnown (fst (on_session_info st sock sid r))"
  by (auto simp: on_session_info_def Let_def roomsKnown_joinRoom split: option.splits)

lemma on_connection_total:
  assumes "roomsKnown st"
  shows "\<exists>res. on_connection st sock a r = Inr res \<and> roomsKnown (fst res)"
proof -
  have k: "\<And>sid. roomsKnown (registerSocket (socketOpen sock st) sock sid)"
    using assms by simp
  have u: "\<And>sid. userRooms (registerSocket (socketOpen sock st) sock sid) = userRooms st"
    by (simp add: registerSocket_def socketOpen_def socketJoin_def)
  have g: "\<And>sid. getRoom (registerSocket (socketOpen sock st) sock sid) = getRoom st"
    by (simp add: fun_eq_iff)
  show ?thesis
  proof (cases "\<exists>sid. a = Some sid \<and> truthy sid")
    case False
    with assms show ?thesis
      by (auto simp: on_connection_def Let_def split: option.splits)
  next
    case True
    then obtain sid where sid: "a = Some sid" "truthy sid" by blast
    let ?s1 = "registerSocket (socketOpen sock st) sock sid"
    show ?thesis
    proof (cases "\<exists>rid. r = Some rid \<and> truthy rid")
      case True
      then obtain rid where "r = Some rid" "truthy rid" by blast
      with sid have "on_connection st sock a r = Inr (joinRoom ?s1 sock sid rid)"
        by (simp add: on_connection_def Let_def)
      with k[of sid] show ?thesis by (simp add: roomsKnown_joinRoom)
    next
      case False
      then have nr: "(case r of None \<Rightarrow> None | Some x \<Rightarrow> if truthy x then Some x else None) = None"
        by (auto split: option.splits)
      show ?thesis
      proof (cases "\<exists>rid. userRooms st sid = Some rid \<and> truthy rid")
        case False
        with sid nr k[of sid] show ?thesis
          by (auto simp: on_connection_def Let_def u split: option.splits)
      next
        case True
        then obtain rid where rid: "userRooms st sid = Some rid" "truthy rid" by blast
        from roomsKnownD[OF assms rid(1)] obtain rd where rd: "getRoom st rid = Some rd" by blast
        have "roomsKnown (attachSocket sock rid rd (socketJoin sock rid ?s1))"
          by (rule roomsKnown_attach) (simp_all add: assms rd)
        with sid nr rid rd show ?thesis
          by (auto simp: on_connection_def Let_def u split: option.splits)
      qed
    qed
  qed
qed

lemma step_total:
  assumes "roomsKnown st" "wellFormed ev"
  shows "\<exists>res. step st ev = Inr res \<and> roomsKnown (fst res)"
proof (cases ev)
  case (Connection sock a r)
  with on_connection_total[OF assms(1)] show ?thesis by simp
next
  case (SessionInfo sock sid r)
  with assms show ?thesis by (simp add: roomsKnown_on_session_info)
next
  case (CreateRoom sock r)
  with assms show ?thesis
    by (auto simp: on_create_room_def roomsKnown_joinRoom split: option.splits)
next
  case (JoinRoom sock r)
  with assms show ?thesis
    by (auto simp: on_join_room_def roomsKnown_joinRoom split: option.splits)
next
  case (LeaveRoom sock r)
  with assms show ?thesis by (simp add: on_leave_room_def roomsKnown_handleUserLeaveRoom)
next
  case (Disconnect sock)
  with assms show ?thesis by (simp add: roomsKnown_on_disconnect)
next
  case (TimeoutFires tid)
  with assms show ?thesis by (simp add: roomsKnown_fireTimeout)
next
  case (CheckRoom r)
  with assms show ?thesis by (auto simp: checkRoom_def Let_def split: lookup.splits)
next
  case (Offer sock d)
  with assms show ?thesis by (auto simp: on_offer_def Let_def)
next
  case (Answer sock d)
  with assms show ?thesis by (auto simp: on_answer_def Let_def)
next
  case (IceCandidate sock d)
  with assms show ?thesis by (auto simp: on_ice_candidate_def Let_def)
qed (use assms in auto)

lemma exec_total_from:
  assumes "list_all wellFormed evs"
  shows "roomsKnown st \<Longrightarrow> \<exists>st'. exec st evs = Inr st' \<and> roomsKnown st'"
  using assms
proof (induction evs arbitrary: st)
  case Nil
  then show ?case by simp
next
  case (Cons e es)
  from Cons.prems have w: "wellFormed e" "list_all wellFormed es" by simp_all
  from step_total[OF Cons.prems(1) w(1)] obtain res where r: "step st e = Inr res" "roomsKnown (fst res)"
    by blast
  from Cons.IH[OF r(2) w(2)] r(1) show ?case by simp
qed

lemma exec_total:
  assumes "list_all wellFormed evs"
  shows "\<exists>st. exec initial evs = Inr st"
proof -
  have "roomsKnown initial" by (simp add: roomsKnown_def initial_def)
  from exec_total_from[OF assms this] show ?thesis by blast
qed

section \<open>The example runs\<close>

lemmas handler_defs = on_connection_def on_session_info_def on_create_room_def on_join_room_def
  joinRoom_def attachSocket_def socketOpen_def socketJoin_def registerSocket_def setRoom_def getRoom_def
  emptyRoom_def pushNew_def truthy_def MAX_USERS_PER_ROOM_def Let_def

lemmas run_defs = handler_defs initial_def

lemmas leave_defs = on_disconnect_def dropConnection_def handleSessionLeaveRoom_def
  handleUserLeaveRoom_def on_leave_room_def socketClose_def socketLeave_def spliceOut_def
  getSocketIdsBySessionId_def sessionOf_def setTimeout_def clearTimeout_def cancelCleanup_def
  cleanupCallback_def fireTimeout_def deleteRoom_def userLeft_def ROOM_CLEANUP_DELAY_def

lemma twoInRoom_exec: "exec initial twoInRoom = Inr twoInRoomState"
  by (auto simp add: twoInRoomState_def twoInRoom_def run_defs fun_eq_iff)

lemma twoInRoom_state: "stateAfter twoInRoom = twoInRoomState"
  by (simp add: stateAfter_def twoInRoom_exec)

lemma twoInRoom_runs: "exec initial twoInRoom = Inr (stateAfter twoInRoom)"
  by (simp add: twoInRoom_state twoInRoom_exec)

lemma twoInRoom_room:
  "getRoom (stateAfter twoInRoom) ''R1'' = Some \<lparr>sessionIds = [''u1'', ''u2''], socketIds = [''X'', ''Y'']\<rparr>"
  by (simp add: twoInRoom_state twoInRoomState_def getRoom_def)

lemma twoInRoom_session: "userSessions (stateAfter twoInRoom) ''X'' = Some ''u1''"
  by (simp add: twoInRoom_state twoInRoomState_def)

lemma twoInRoom_findUserRoom: "findUserRoom (stateAfter twoInRoom) ''X'' = Some ''R1''"
  by (simp add: findUserRoom_def sessionOf_def truthy_def twoInRoom_state twoInRoomState_def)

lemma twoInRoom_adapter: "adapterRooms (stateAfter twoInRoom) ''R1'' = {''X'', ''Y''}"
  by (simp add: twoInRoom_state twoInRoomState_def)

lemma twoInRoom_nowhere: "tracksNowhere (stateAfter twoInRoom) ''W''"
  by (simp add: tracksNowhere_def sessionOf_def twoInRoom_state twoInRoomState_def)

lemma rejoined_exec: "exec initial rejoined = Inr rejoinedState"
  by (auto simp add: rejoinedState_def rejoined_def run_defs leave_defs fun_eq_iff)

lemma rejoined_state: "stateAfter rejoined = rejoinedState"
  by (simp add: stateAfter_def rejoined_exec)

lemma rejoined_runs: "exec initial rejoined = Inr (stateAfter rejoined)"
  by (simp add: rejoined_state rejoined_exec)

lemma twoRooms_exec: "exec initial twoRooms = Inr twoRoomsState"
  by (auto simp add: twoRoomsState_def twoRooms_def twoInRoom_def run_defs fun_eq_iff)

lemma twoRooms_state: "stateAfter twoRooms = twoRoomsState"
  by (simp add: stateAfter_def twoRooms_exec)

lemma leftSecondRoom_exec: "exec initial leftSecondRoom = Inr leftSecondRoomState"
  by (auto simp add: leftSecondRoomState_def leftSecondRoom_def run_defs leave_defs fun_eq_iff)

lemma leftSecondRoom_state: "stateAfter leftSecondRoom = leftSecondRoomState"
  by (simp add: stateAfter_def leftSecondRoom_exec)

section \<open>Room capacity\<close>

text \<open>
  Claim C1. In every state reached from the empty tables, each room holds at most two
  occupant identities, without repetition. When a room already holds two occupants, a join
  by a further identity emits \<^verbatim>\<open>room-full\<close> to the requesting socket and to no
  other, and leaves the room table and the session-to-room table as they were. A join by
  an identity that is already an occupant emits nothing and leaves the occupants as they
  were.
\<close>

theorem room_capacity:
  "(exec initial evs = Inr st \<and> getRoom st roomId = Some rd \<longrightarrow>
      length (sessionIds rd) \<le> 2 \<and> distinct (sessionIds rd))
   \<and> (getRoom st0 roomId = Some rd0 \<and> length (sessionIds rd0) = 2 \<and> sid \<notin> set (sessionIds rd0) \<longrightarrow>
        snd (joinRoom st0 sock sid roomId) = [roomFull sock roomId]
        \<and> recipients (fst (joinRoom st0 sock sid roomId)) (ToSocket sock) \<subseteq> {sock}
        \<and> rooms (fst (joinRoom st0 sock sid roomId)) = rooms st0
        \<and> userRooms (fst (joinRoom st0 sock sid roomId)) = userRooms st0)
   \<and> (getRoom st0 roomId = Some rd0 \<and> sid \<in> set (sessionIds rd0) \<longrightarrow>
        snd (joinRoom st0 sock sid roomId) = []
        \<and> map_option sessionIds (getRoom (fst (joinRoom st0 sock sid roomId)) roomId)
            = Some (sessionIds rd0)
        \<and> userRooms (fst (joinRoom st0 sock sid roomId)) = userRooms st0)"
proof (intro conjI impI)
  assume a: "exec initial evs = Inr st \<and> getRoom st roomId = Some rd"
  then have "capOk st" using capOk_exec[of evs st] by simp
  with a show "length (sessionIds rd) \<le> 2" "distinct (sessionIds rd)"
    by (auto simp: capOk_def MAX_USERS_PER_ROOM_def)
next
  assume a: "getRoom st0 roomId = Some rd0 \<and> length (sessionIds rd0) = 2 \<and> sid \<notin> set (sessionIds rd0)"
  then have j: "joinRoom st0 sock sid roomId = (socketJoin sock roomId st0, [roomFull sock roomId])"
    by (intro joinRoom_full[of st0 roomId rd0]) (simp_all add: MAX_USERS_PER_ROOM_def)
  show "snd (joinRoom st0 sock sid roomId) = [roomFull sock roomId]" by (simp add: j)
  show "recipients (fst (joinRoom st0 sock sid roomId)) (ToSocket sock) \<subseteq> {sock}" by simp
  show "rooms (fst (joinRoom st0 sock sid roomId)) = rooms st0" by (simp add: j socketJoin_def)
  show "userRooms (fst (joinRoom st0 sock sid roomId)) = userRooms st0" by (simp add: j socketJoin_def)
next
  assume a: "getRoom st0 roomId = Some rd0 \<and> sid \<in> set (sessionIds rd0)"
  then have j: "joinRoom st0 sock sid roomId =
           (attachSocket sock roomId rd0 (socketJoin sock roomId st0), [])"
    by (intro joinRoom_present) simp_all
  show "snd (joinRoom st0 sock sid roomId) = []" by (simp add: j)
  show "map_option sessionIds (getRoom (fst (joinRoom st0 sock sid roomId)) roomId)
            = Some (sessionIds rd0)" by (simp add: j)
  show "userRooms (fst (joinRoom st0 sock sid roomId)) = userRooms st0"
    by (simp add: j attachSocket_def setRoom_def socketJoin_def)
qed

theorem room_capacity_witness:
  "exec initial twoInRoom = Inr (stateAfter twoInRoom)
   \<and> getRoom (stateAfter twoInRoom) ''R1'' = Some \<lparr>sessionIds = [''u1'', ''u2''], socketIds = [''X'', ''Y'']\<rparr>
   \<and> snd (joinRoom (stateAfter twoInRoom) ''Z'' ''u3'' ''R1'') = [roomFull ''Z'' ''R1'']
   \<and> rooms (fst (joinRoom (stateAfter twoInRoom) ''Z'' ''u3'' ''R1'')) = rooms (stateAfter twoInRoom)
   \<and> snd (joinRoom (stateAfter twoInRoom) ''X2'' ''u1'' ''R1'') = []
   \<and> map_option sessionIds (getRoom (fst (joinRoom (stateAfter twoInRoom) ''X2'' ''u1'' ''R1'')) ''R1'')
        = Some [''u1'', ''u2'']"
  using room_capacity[of twoInRoom "stateAfter twoInRoom" "''R1''"
          "\<lparr>sessionIds = [''u1'', ''u2''], socketIds = [''X'', ''Y'']\<rparr>" "stateAfter twoInRoom"
          "\<lparr>sessionIds = [''u1'', ''u2''], socketIds = [''X'', ''Y'']\<rparr>" "''u3''" "''Z''"]
        room_capacity[of twoInRoom "stateAfter twoInRoom" "''R1''"
          "\<lparr>sessionIds = [''u1'', ''u2''], socketIds = [''X'', ''Y'']\<rparr>" "stateAfter twoInRoom"
          "\<lparr>sessionIds = [''u1'', ''u2''], socketIds = [''X'', ''Y'']\<rparr>" "''u1''" "''X2''"]
        twoInRoom_runs twoInRoom_room
  by simp

section \<open>Availability check\<close>

lemma checkRoom_reads: "fst (checkRoom st roomId) = st"
  by (simp add: checkRoom_def Let_def split: lookup.splits)

lemma checkRoom_ordinary_key:
  assumes "roomId \<notin> set objectPrototypeMembers"
  shows "getRoom st roomId = None \<Longrightarrow>
           snd (checkRoom st roomId)
             = Inr \<lparr>available = True, exists = False, userCount = None,
                     message = ''Room does not exist and can be created''\<rparr>"
    and "getRoom st roomId = Some rd \<Longrightarrow>
           snd (checkRoom st roomId)
             = Inr \<lparr>available = length (sessionIds rd) < 2, exists = True,
                     userCount = Some (length (sessionIds rd)),
                     message = (if 2 \<le> length (sessionIds rd) then ''Room is full''
                                else ''Room is available to join'')\<rparr>"
  using assms
  by (auto simp: checkRoom_def readRoom_def MAX_USERS_PER_ROOM_def Let_def)

text \<open>
  Claim C8 does not hold of the code. The handler never changes the tables, and for a room
  id that is not a member name of \<^verbatim>\<open>Object.prototype\<close> it answers as the claim
  says. For \<^verbatim>\<open>GET /api/check-room/constructor\<close>, with no such room, the test
  \<^verbatim>\<open>!rooms[roomId]\<close> finds the inherited member and the handler throws instead of
  answering \<open>exists = False\<close> and \<open>available = True\<close>, as it does for the absent room
  \<open>R1\<close>.
\<close>

theorem check_room_inherited_key:
  "getRoom initial ''constructor'' = None
   \<and> checkRoom initial ''constructor'' = (initial, Inl TypeError)
   \<and> getRoom initial ''R1'' = None
   \<and> checkRoom initial ''R1''
       = (initial, Inr \<lparr>available = True, exists = False, userCount = None,
                        message = ''Room does not exist and can be created''\<rparr>)
   \<and> snd (checkRoom (stateAfter twoInRoom) ''R1'')
       = Inr \<lparr>available = False, exists = True, userCount = Some 2, message = ''Room is full''\<rparr>
   \<and> snd (checkRoom (stateAfter twoInRoom) ''toString'') = Inl TypeError"
proof -
  have a: "getRoom initial ''constructor'' = None" "getRoom initial ''R1'' = None"
    by (simp_all add: getRoom_def initial_def)
  have b: "getRoom (stateAfter twoInRoom) ''toString'' = None"
    by (simp add: twoInRoom_state twoInRoomState_def getRoom_def)
  have c: "checkRoom initial ''constructor'' = (initial, Inl TypeError)"
    using a by (simp add: checkRoom_def readRoom_def objectPrototypeMembers_def)
  have d: "checkRoom initial ''R1''
       = (initial, Inr \<lparr>available = True, exists = False, userCount = None,
                        message = ''Room does not exist and can be created''\<rparr>)"
    using a by (simp add: checkRoom_def readRoom_def objectPrototypeMembers_def)
  have e: "snd (checkRoom (stateAfter twoInRoom) ''R1'')
       = Inr \<lparr>available = False, exists = True, userCount = Some 2, message = ''Room is full''\<rparr>"
    using twoInRoom_room by (simp add: checkRoom_def readRoom_def MAX_USERS_PER_ROOM_def)
  have f: "snd (checkRoom (stateAfter twoInRoom) ''toString'') = Inl TypeError"
    using b by (simp add: checkRoom_def readRoom_def objectPrototypeMembers_def)
  from a c d e f show ?thesis by simp
qed

section \<open>create-room and join-room\<close>

text \<open>
  Claim C9. The \<^verbatim>\<open>create-room\<close> and \<^verbatim>\<open>join-room\<close> handlers give the same
  state and the same emissions on every state, socket and room id: both call
  \<open>joinRoom\<close> with the identity registered for the socket, and both leave the state
  unchanged and emit nothing when the socket has no registered identity.
\<close>

theorem create_room_join_room_same:
  "on_create_room st sock roomId = on_join_room st sock roomId \<and>
   (\<forall>sid. sessionOf st sock = Some sid \<longrightarrow>
      on_create_room st sock roomId = joinRoom st sock sid roomId \<and>
      on_join_room st sock roomId = joinRoom st sock sid roomId) \<and>
   (sessionOf st sock = None \<longrightarrow>
      on_create_room st sock roomId = (st, []) \<and> on_join_room st sock roomId = (st, []))"
  by (auto simp: on_create_room_def on_join_room_def sessionOf_def split: option.splits if_splits)

theorem create_room_join_room_same_witness:
  "sessionOf (stateAfter twoInRoom) ''X'' = Some ''u1'' \<and>
   on_create_room (stateAfter twoInRoom) ''X'' ''R2'' = on_join_room (stateAfter twoInRoom) ''X'' ''R2'' \<and>
   on_create_room (stateAfter twoInRoom) ''X'' ''R2'' = joinRoom (stateAfter twoInRoom) ''X'' ''u1'' ''R2'' \<and>
   sessionOf (stateAfter twoInRoom) ''W'' = None \<and>
   on_create_room (stateAfter twoInRoom) ''W'' ''R2'' = (stateAfter twoInRoom, []) \<and>
   on_join_room (stateAfter twoInRoom) ''W'' ''R2'' = (stateAfter twoInRoom, [])"
proof -
  have a: "sessionOf (stateAfter twoInRoom) ''X'' = Some ''u1''"
    by (simp add: sessionOf_def stateAfter_def twoInRoom_def run_defs)
  have b: "sessionOf (stateAfter twoInRoom) ''W'' = None"
    by (simp add: sessionOf_def stateAfter_def twoInRoom_def run_defs)
  from create_room_join_room_same[of "stateAfter twoInRoom" "''X''" "''R2''"] a
       create_room_join_room_same[of "stateAfter twoInRoom" "''W''" "''R2''"] b
  show ?thesis by simp
qed

section \<open>Relaying offers and answers\<close>

lemma assignAll_append: "assignAll (xs @ ys) acc = assignAll ys (assignAll xs acc)"
  by (simp add: assignAll_def)

lemma map_of_assignAll:
  "map_of (assignAll props acc) = map_of acc ++ map_of (rev props)"
proof (induction props arbitrary: acc)
  case Nil
  show ?case by (simp add: assignAll_def)
next
  case (Cons p ps)
  have "assignAll (p # ps) acc = assignAll ps (AList.update (fst p) (snd p) acc)"
    by (simp add: assignAll_def)
  then show ?case
    by (simp add: Cons.IH update_conv' map_add_def fun_eq_iff split: option.splits)
qed

lemma map_of_rev_distinct:
  "distinct (map fst xs) \<Longrightarrow> map_of (rev xs) = map_of xs"
proof (induction xs)
  case Nil
  show ?case by simp
next
  case (Cons p ps)
  then have "fst p \<notin> fst ` set ps" by simp
  then have "map_of ps (fst p) = None" by (simp add: map_of_eq_None_iff)
  with Cons show ?case
    by (auto simp: map_add_def fun_eq_iff split: option.splits)
qed

lemma member_stamped:
  assumes "distinct (map fst body)"
  shows "member (stamped st sock (JObj body)) k =
           (if k = ''fromSessionId'' then optStr (userSessions st sock)
            else if k = ''fromSocketId'' then JStr sock
            else member (JObj body) k)"
  using assms
  by (simp add: stamped_def assignAll_append map_of_assignAll map_of_rev_distinct map_add_def)

lemma stamped_absent:
  "stamped st sock JUndefined =
     JObj [(''fromSocketId'', JStr sock), (''fromSessionId'', optStr (userSessions st sock))]"
  by (simp add: stamped_def assignAll_def)

text \<open>
  Claim C5, as amended. The \<^verbatim>\<open>offer\<close> and \<^verbatim>\<open>answer\<close> handlers read the nested
  shape: for a payload \<^verbatim>\<open>{offer: {type, sdp}, roomId}\<close> (respectively
  \<^verbatim>\<open>answer\<close>) they emit, to the room \<open>roomId\<close> without the sender, one flattened
  payload that holds the \<open>type\<close> and \<open>sdp\<close> of the nested object together with
  \<open>fromSocketId\<close> and \<open>fromSessionId\<close>. For a payload without an \<^verbatim>\<open>offer\<close>
  (respectively \<^verbatim>\<open>answer\<close>) property, which is the direct shape, the emitted payload
  holds the two sender fields only.
\<close>

theorem relay_nested_shape:
  "(distinct (map fst body) \<and> map_of body ''type'' = Some t \<and> map_of body ''sdp'' = Some s \<and>
    map_of kvs ''roomId'' = Some (JStr r) \<longrightarrow>
      (map_of kvs ''offer'' = Some (JObj body) \<longrightarrow>
         on_offer st sock (JObj kvs)
           = Inr [Emit (ToRoomExcept (JStr r) sock) ''offer'' (stamped st sock (JObj body))]) \<and>
      (map_of kvs ''answer'' = Some (JObj body) \<longrightarrow>
         on_answer st sock (JObj kvs)
           = Inr [Emit (ToRoomExcept (JStr r) sock) ''answer'' (stamped st sock (JObj body))]) \<and>
      member (stamped st sock (JObj body)) ''type'' = t \<and>
      member (stamped st sock (JObj body)) ''sdp'' = s \<and>
      member (stamped st sock (JObj body)) ''fromSocketId'' = JStr sock \<and>
      member (stamped st sock (JObj body)) ''fromSessionId'' = optStr (userSessions st sock))
   \<and> (map_of kvs ''offer'' = None \<longrightarrow>
        on_offer st sock (JObj kvs)
          = Inr [Emit (ToRoomExcept (member (JObj kvs) ''roomId'') sock) ''offer''
                   (JObj [(''fromSocketId'', JStr sock),
                          (''fromSessionId'', optStr (userSessions st sock))])])
   \<and> (map_of kvs ''answer'' = None \<longrightarrow>
        on_answer st sock (JObj kvs)
          = Inr [Emit (ToRoomExcept (member (JObj kvs) ''roomId'') sock) ''answer''
                   (JObj [(''fromSocketId'', JStr sock),
                          (''fromSessionId'', optStr (userSessions st sock))])])"
  by (auto simp: on_offer_def on_answer_def member_stamped stamped_absent Let_def)

theorem relay_nested_shape_witness:
  "on_offer (stateAfter twoInRoom) ''X''
     (JObj [(''offer'', JObj [(''type'', JStr ''offer''), (''sdp'', JStr ''v=0'')]),
            (''roomId'', JStr ''R1'')])
   = Inr [Emit (ToRoomExcept (JStr ''R1'') ''X'') ''offer''
            (stamped (stateAfter twoInRoom) ''X''
               (JObj [(''type'', JStr ''offer''), (''sdp'', JStr ''v=0'')]))]
   \<and> on_answer (stateAfter twoInRoom) ''Y''
     (JObj [(''answer'', JObj [(''type'', JStr ''answer''), (''sdp'', JStr ''v=0'')]),
            (''roomId'', JStr ''R1'')])
   = Inr [Emit (ToRoomExcept (JStr ''R1'') ''Y'') ''answer''
            (stamped (stateAfter twoInRoom) ''Y''
               (JObj [(''type'', JStr ''answer''), (''sdp'', JStr ''v=0'')]))]
   \<and> member (stamped (stateAfter twoInRoom) ''X''
               (JObj [(''type'', JStr ''offer''), (''sdp'', JStr ''v=0'')])) ''type'' = JStr ''offer''
   \<and> member (stamped (stateAfter twoInRoom) ''X''
               (JObj [(''type'', JStr ''offer''), (''sdp'', JStr ''v=0'')])) ''sdp'' = JStr ''v=0''
   \<and> member (stamped (stateAfter twoInRoom) ''X''
               (JObj [(''type'', JStr ''offer''), (''sdp'', JStr ''v=0'')])) ''fromSocketId'' = JStr ''X''
   \<and> member (stamped (stateAfter twoInRoom) ''X''
               (JObj [(''type'', JStr ''offer''), (''sdp'', JStr ''v=0'')])) ''fromSessionId'' = JStr ''u1''
   \<and> on_answer (stateAfter twoInRoom) ''X''
     (JObj [(''type'', JStr ''answer''), (''sdp'', JStr ''v=0''), (''roomId'', JStr ''R1'')])
   = Inr [Emit (ToRoomExcept (JStr ''R1'') ''X'') ''answer''
            (JObj [(''fromSocketId'', JStr ''X''), (''fromSessionId'', JStr ''u1'')])]"
  using relay_nested_shape[of "[(''type'', JStr ''offer''), (''sdp'', JStr ''v=0'')]"
          "JStr ''offer''" "JStr ''v=0''"
          "[(''offer'', JObj [(''type'', JStr ''offer''), (''sdp'', JStr ''v=0'')]), (''roomId'', JStr ''R1'')]"
          "''R1''" "stateAfter twoInRoom" "''X''"]
        relay_nested_shape[of "[(''type'', JStr ''answer''), (''sdp'', JStr ''v=0'')]"
          "JStr ''answer''" "JStr ''v=0''"
          "[(''answer'', JObj [(''type'', JStr ''answer''), (''sdp'', JStr ''v=0'')]), (''roomId'', JStr ''R1'')]"
          "''R1''" "stateAfter twoInRoom" "''Y''"]
        relay_nested_shape[of "[]" "JNull" "JNull"
          "[(''type'', JStr ''answer''), (''sdp'', JStr ''v=0''), (''roomId'', JStr ''R1'')]"
          "''R1''" "stateAfter twoInRoom" "''X''"]
        twoInRoom_session
  by (simp add: optStr_def)

text \<open>
  The claim as stated fails on the direct shape: the \<open>type\<close> and \<open>sdp\<close> of
  \<^verbatim>\<open>{type, sdp, roomId}\<close> are not in the payload that is sent on.
\<close>

theorem relay_direct_shape_counterexample:
  "on_offer (stateAfter twoInRoom) ''X''
     (JObj [(''type'', JStr ''offer''), (''sdp'', JStr ''v=0''), (''roomId'', JStr ''R1'')])
   = Inr [Emit (ToRoomExcept (JStr ''R1'') ''X'') ''offer''
            (JObj [(''fromSocketId'', JStr ''X''), (''fromSessionId'', JStr ''u1'')])]"
  by (simp add: on_offer_def stamped_absent twoInRoom_session optStr_def)

section \<open>Transcriptions\<close>

lemma set_objectEntries: "set (objectEntries al) = set al"
  by (auto simp: objectEntries_def)

lemma scan_None:
  assumes "list_all (\<lambda>(roomId, roomData). sock \<notin> set (socketIds roomData)) al"
  shows "find (\<lambda>(roomId, roomData). sock \<in> set (socketIds roomData)) (objectEntries al) = None"
  using assms by (auto simp: find_None_iff set_objectEntries list_all_iff)

lemma findUserRoom_nowhere: "tracksNowhere st sock \<Longrightarrow> findUserRoom st sock = None"
  by (auto simp: tracksNowhere_def findUserRoom_def Let_def scan_None split: option.splits)

lemma trim_Nil: "trim [] = []"
  by (simp add: trim_def)

lemma find_Some_member: "find P xs = Some x \<Longrightarrow> x \<in> set xs \<and> P x"
  by (induction xs) (auto split: if_splits)

lemma scan_unique:
  assumes "(r, rd) \<in> set al" "sock \<in> set (socketIds rd)"
    "list_all (\<lambda>(r', rd'). sock \<in> set (socketIds rd') \<longrightarrow> r' = r) al"
  shows "map_option fst (find (\<lambda>(roomId, roomData). sock \<in> set (socketIds roomData)) (objectEntries al))
           = Some r"
proof (cases "find (\<lambda>(roomId, roomData). sock \<in> set (socketIds roomData)) (objectEntries al)")
  case None
  with assms(1,2) show ?thesis
    by (auto simp: find_None_iff set_objectEntries)
next
  case (Some x)
  from find_Some_member[OF this]
  have "x \<in> set al" "sock \<in> set (socketIds (snd x))"
    by (auto simp: set_objectEntries split: prod.splits)
  with assms(3) have "fst x = r"
    by (auto simp: list_all_iff)
  with Some show ?thesis by simp
qed

lemma findUserRoom_recorded:
  assumes "userSessions st sock = Some sid" "sid \<noteq> []" "userRooms st sid = Some r" "r \<noteq> []"
  shows "findUserRoom st sock = Some r"
  using assms by (simp add: findUserRoom_def sessionOf_def truthy_def Let_def)

lemma findUserRoom_tracked:
  assumes "case sessionOf st sock of None \<Rightarrow> True | Some sid \<Rightarrow> userRooms st sid = None"
    "(r, rd) \<in> set (rooms st)" "r \<noteq> []" "sock \<in> set (socketIds rd)"
    "list_all (\<lambda>(r', rd'). sock \<in> set (socketIds rd') \<longrightarrow> r' = r) (rooms st)"
  shows "findUserRoom st sock = Some r"
  using assms scan_unique[OF assms(2,4,5)]
  by (auto simp: findUserRoom_def truthy_def Let_def split: option.splits)

lemma speech_to_room:
  assumes "findUserRoom st sock = Some r" "audioChunk d \<noteq> []" "n \<noteq> 0" "trim t \<noteq> []"
  shows "on_speech_to_text st sock d n (Returned t)
        = [Emit (ToRoomExcept (JStr r) sock) ''transcription''
             (transcriptionPayload st sock t (language d) False),
           Emit (ToSocket sock) ''transcription''
             (transcriptionPayload st sock t (language d) True)]"
proof -
  from assms(4) have "t \<noteq> []" using trim_Nil by auto
  with assms show ?thesis by (simp add: on_speech_to_text_def)
qed

text \<open>
  Claim C6, as amended. Take a \<^verbatim>\<open>speech-to-text\<close> event from socket \<open>sock\<close> with a
  non-empty audio chunk and a non-empty decoded buffer, whose transcription is not blank
  (not empty after trimming white space), and let \<open>r\<close> be the room recorded for the
  identity of \<open>sock\<close> or, when none is recorded for it, the one room whose socket list
  holds \<open>sock\<close>. Then exactly two \<^verbatim>\<open>transcription\<close> emissions occur: one to the room
  \<open>r\<close> without \<open>sock\<close>, with \<open>isOwnMessage\<close> false, and one to \<open>sock\<close>, with
  \<open>isOwnMessage\<close> true. A blank or empty transcription gives none, and so does any event
  from a socket that is in no room.
\<close>

theorem transcription_emissions:
  "(userSessions st sock = Some sid \<and> sid \<noteq> [] \<and> userRooms st sid = Some r \<and> r \<noteq> [] \<and>
    audioChunk d \<noteq> [] \<and> n \<noteq> 0 \<and> trim t \<noteq> [] \<longrightarrow>
      on_speech_to_text st sock d n (Returned t)
        = [Emit (ToRoomExcept (JStr r) sock) ''transcription''
             (transcriptionPayload st sock t (language d) False),
           Emit (ToSocket sock) ''transcription''
             (transcriptionPayload st sock t (language d) True)])
   \<and> ((case sessionOf st sock of None \<Rightarrow> True | Some s \<Rightarrow> userRooms st s = None) \<and>
       (r, rd) \<in> set (rooms st) \<and> r \<noteq> [] \<and> sock \<in> set (socketIds rd) \<and>
       list_all (\<lambda>(r', rd'). sock \<in> set (socketIds rd') \<longrightarrow> r' = r) (rooms st) \<and>
       audioChunk d \<noteq> [] \<and> n \<noteq> 0 \<and> trim t \<noteq> [] \<longrightarrow>
      on_speech_to_text st sock d n (Returned t)
        = [Emit (ToRoomExcept (JStr r) sock) ''transcription''
             (transcriptionPayload st sock t (language d) False),
           Emit (ToSocket sock) ''transcription''
             (transcriptionPayload st sock t (language d) True)])
   \<and> recipients st (ToRoomExcept (JStr r) sock) = adapterRooms st r - {sock}
   \<and> recipients st (ToSocket sock) \<subseteq> {sock}
   \<and> member (transcriptionPayload st sock t (language d) False) ''isOwnMessage'' = JBool False
   \<and> member (transcriptionPayload st sock t (language d) True) ''isOwnMessage'' = JBool True
   \<and> (trim t = [] \<longrightarrow> on_speech_to_text st sock d n (Returned t) = [])
   \<and> (tracksNowhere st sock \<longrightarrow> on_speech_to_text st sock d n out = [])"
proof (intro conjI impI)
  assume a: "userSessions st sock = Some sid \<and> sid \<noteq> [] \<and> userRooms st sid = Some r \<and> r \<noteq> [] \<and>
    audioChunk d \<noteq> [] \<and> n \<noteq> 0 \<and> trim t \<noteq> []"
  then have "findUserRoom st sock = Some r" by (intro findUserRoom_recorded[of st sock sid]) simp_all
  with a show "on_speech_to_text st sock d n (Returned t)
        = [Emit (ToRoomExcept (JStr r) sock) ''transcription''
             (transcriptionPayload st sock t (language d) False),
           Emit (ToSocket sock) ''transcription''
             (transcriptionPayload st sock t (language d) True)]"
    by (intro speech_to_room) simp_all
next
  assume a: "(case sessionOf st sock of None \<Rightarrow> True | Some s \<Rightarrow> userRooms st s = None) \<and>
       (r, rd) \<in> set (rooms st) \<and> r \<noteq> [] \<and> sock \<in> set (socketIds rd) \<and>
       list_all (\<lambda>(r', rd'). sock \<in> set (socketIds rd') \<longrightarrow> r' = r) (rooms st) \<and>
       audioChunk d \<noteq> [] \<and> n \<noteq> 0 \<and> trim t \<noteq> []"
  then have "findUserRoom st sock = Some r" by (intro findUserRoom_tracked[of st sock r rd]) simp_all
  with a show "on_speech_to_text st sock d n (Returned t)
        = [Emit (ToRoomExcept (JStr r) sock) ''transcription''
             (transcriptionPayload st sock t (language d) False),
           Emit (ToSocket sock) ''transcription''
             (transcriptionPayload st sock t (language d) True)]"
    by (intro speech_to_room) simp_all
next
  show "recipients st (ToRoomExcept (JStr r) sock) = adapterRooms st r - {sock}" by simp
  show "recipients st (ToSocket sock) \<subseteq> {sock}" by simp
  show "member (transcriptionPayload st sock t (language d) False) ''isOwnMessage'' = JBool False"
    by (simp add: transcriptionPayload_def)
  show "member (transcriptionPayload st sock t (language d) True) ''isOwnMessage'' = JBool True"
    by (simp add: transcriptionPayload_def)
next
  assume "trim t = []"
  then show "on_speech_to_text st sock d n (Returned t) = []"
    by (simp add: on_speech_to_text_def split: option.splits)
next
  assume "tracksNowhere st sock"
  then show "on_speech_to_text st sock d n out = []"
    by (simp add: on_speech_to_text_def findUserRoom_nowhere)
qed

theorem transcription_emissions_witness:
  "userSessions (stateAfter twoInRoom) ''X'' = Some ''u1''
   \<and> userRooms (stateAfter twoInRoom) ''u1'' = Some ''R1''
   \<and> trim ''hello'' = ''hello''
   \<and> on_speech_to_text (stateAfter twoInRoom) ''X'' speechSample 3 (Returned ''hello'')
        = [Emit (ToRoomExcept (JStr ''R1'') ''X'') ''transcription''
             (transcriptionPayload (stateAfter twoInRoom) ''X'' ''hello'' ''en-US'' False),
           Emit (ToSocket ''X'') ''transcription''
             (transcriptionPayload (stateAfter twoInRoom) ''X'' ''hello'' ''en-US'' True)]
   \<and> recipients (stateAfter twoInRoom) (ToRoomExcept (JStr ''R1'') ''X'') = {''Y''}
   \<and> sessionOf (stateAfter leftSecondRoom) ''X'' = Some ''u1''
   \<and> userRooms (stateAfter leftSecondRoom) ''u1'' = None
   \<and> rooms (stateAfter leftSecondRoom) = [(''R1'', \<lparr>sessionIds = [''u1''], socketIds = [''X'']\<rparr>)]
   \<and> on_speech_to_text (stateAfter leftSecondRoom) ''X'' speechSample 3 (Returned ''hello'')
        = [Emit (ToRoomExcept (JStr ''R1'') ''X'') ''transcription''
             (transcriptionPayload (stateAfter leftSecondRoom) ''X'' ''hello'' ''en-US'' False),
           Emit (ToSocket ''X'') ''transcription''
             (transcriptionPayload (stateAfter leftSecondRoom) ''X'' ''hello'' ''en-US'' True)]
   \<and> trim ''  '' = ''''
   \<and> on_speech_to_text (stateAfter twoInRoom) ''X'' speechSample 3 (Returned ''  '') = []
   \<and> tracksNowhere (stateAfter twoInRoom) ''W''
   \<and> on_speech_to_text (stateAfter twoInRoom) ''W'' speechSample 3 (Returned ''hello'') = []"
proof -
  let ?rd = "\<lparr>sessionIds = [''u1''], socketIds = [''X'']\<rparr>"
  have t1: "trim ''hello'' = ''hello''" by (simp add: trim_def isSpace_def)
  have t2: "trim ''  '' = ''''" by (simp add: trim_def isSpace_def)
  have c: "audioChunk speechSample \<noteq> [] \<and> language speechSample = ''en-US''"
    by (simp add: speechSample_def)
  have y: "{''X'', ''Y''} - {''X''} = {''Y''}" by auto
  have u: "userSessions (stateAfter twoInRoom) ''X'' = Some ''u1''"
          "userRooms (stateAfter twoInRoom) ''u1'' = Some ''R1''"
    by (simp_all add: twoInRoom_state twoInRoomState_def)
  have l: "sessionOf (stateAfter leftSecondRoom) ''X'' = Some ''u1''"
          "userRooms (stateAfter leftSecondRoom) ''u1'' = None"
          "rooms (stateAfter leftSecondRoom) = [(''R1'', ?rd)]"
    by (simp_all add: leftSecondRoom_state leftSecondRoomState_def sessionOf_def truthy_def)
  note a = transcription_emissions[of "stateAfter twoInRoom" "''X''" "''u1''" "''R1''" speechSample 3
             "''hello''" ?rd "Returned ''hello''"]
  note b = transcription_emissions[of "stateAfter leftSecondRoom" "''X''" "''u1''" "''R1''" speechSample 3
             "''hello''" ?rd "Returned ''hello''"]
  note e = transcription_emissions[of "stateAfter twoInRoom" "''X''" "''u1''" "''R1''" speechSample 3
             "''  ''" ?rd "Returned ''hello''"]
  note f = transcription_emissions[of "stateAfter twoInRoom" "''W''" "''u1''" "''R1''" speechSample 3
             "''hello''" ?rd "Returned ''hello''"]
  from a b e f u l twoInRoom_nowhere twoInRoom_adapter t1 t2 c y
  show ?thesis by simp
qed

text \<open>
  The claim as stated fails twice. A transcription that is not empty but blank gives no
  emission. And a socket can be in a room that its transcription does not go to: after
  \<open>twoRooms\<close> the socket \<open>X\<close> is in the occupant list, the socket list and the broadcast
  room of \<open>R1\<close>, together with \<open>Y\<close>, but the room recorded for its identity is \<open>R2\<close>,
  and the broadcast goes there, where nobody else is.
\<close>

theorem transcription_rooms_counterexample:
  "userSessions (stateAfter twoInRoom) ''X'' = Some ''u1''
   \<and> getRoom (stateAfter twoInRoom) ''R1''
       = Some \<lparr>sessionIds = [''u1'', ''u2''], socketIds = [''X'', ''Y'']\<rparr>
   \<and> audioChunk speechSample \<noteq> [] \<and> '' '' \<noteq> ''''
   \<and> on_speech_to_text (stateAfter twoInRoom) ''X'' speechSample 3 (Returned '' '') = []
   \<and> exec initial twoRooms = Inr (stateAfter twoRooms)
   \<and> userSessions (stateAfter twoRooms) ''X'' = Some ''u1''
   \<and> getRoom (stateAfter twoRooms) ''R1''
       = Some \<lparr>sessionIds = [''u1'', ''u2''], socketIds = [''X'', ''Y'']\<rparr>
   \<and> adapterRooms (stateAfter twoRooms) ''R1'' = {''X'', ''Y''}
   \<and> on_speech_to_text (stateAfter twoRooms) ''X'' speechSample 3 (Returned ''hello'')
       = [Emit (ToRoomExcept (JStr ''R2'') ''X'') ''transcription''
            (transcriptionPayload (stateAfter twoRooms) ''X'' ''hello'' ''en-US'' False),
          Emit (ToSocket ''X'') ''transcription''
            (transcriptionPayload (stateAfter twoRooms) ''X'' ''hello'' ''en-US'' True)]
   \<and> recipients (stateAfter twoRooms) (ToRoomExcept (JStr ''R2'') ''X'') = {}"
proof -
  have a: "on_speech_to_text (stateAfter twoInRoom) ''X'' speechSample 3 (Returned '' '') = []"
    by (simp add: twoInRoom_findUserRoom on_speech_to_text_def speechSample_def trim_def isSpace_def)
  have f: "findUserRoom (stateAfter twoRooms) ''X'' = Some ''R2''"
    by (simp add: findUserRoom_def sessionOf_def truthy_def twoRooms_state twoRoomsState_def)
  have b: "on_speech_to_text (stateAfter twoRooms) ''X'' speechSample 3 (Returned ''hello'')
       = [Emit (ToRoomExcept (JStr ''R2'') ''X'') ''transcription''
            (transcriptionPayload (stateAfter twoRooms) ''X'' ''hello'' ''en-US'' False),
          Emit (ToSocket ''X'') ''transcription''
            (transcriptionPayload (stateAfter twoRooms) ''X'' ''hello'' ''en-US'' True)]"
    by (simp add: f on_speech_to_text_def speechSample_def trim_def isSpace_def)
  have e: "exec initial twoRooms = Inr (stateAfter twoRooms)"
    by (simp add: twoRooms_state twoRooms_exec)
  have s: "userSessions (stateAfter twoRooms) ''X'' = Some ''u1''"
     "getRoom (stateAfter twoRooms) ''R1''
       = Some \<lparr>sessionIds = [''u1'', ''u2''], socketIds = [''X'', ''Y'']\<rparr>"
     "adapterRooms (stateAfter twoRooms) ''R1'' = {''X'', ''Y''}"
     "recipients (stateAfter twoRooms) (ToRoomExcept (JStr ''R2'') ''X'') = {}"
    by (simp_all add: twoRooms_state twoRoomsState_def getRoom_def)
  have c: "audioChunk speechSample \<noteq> []" by (simp add: speechSample_def)
  from a b e s c twoInRoom_session twoInRoom_room show ?thesis by simp
qed

section \<open>Timers, identities and broadcast rooms through every handler\<close>

lemma timersOk_frame:
  assumes "timeouts st' = timeouts st" "pendingRoomCleanups st' = pendingRoomCleanups st"
    "nextTimeout st' = nextTimeout st" "timersOk st"
  shows "timersOk st'"
  using assms by (simp add: timersOk_def)

lemma timersOk_update [simp]:
  "timersOk (st\<lparr>rooms := a\<rparr>) = timersOk st"
  "timersOk (st\<lparr>userRooms := b\<rparr>) = timersOk st"
  "timersOk (st\<lparr>sessionConnections := c\<rparr>) = timersOk st"
  "timersOk (st\<lparr>userSessions := d\<rparr>) = timersOk st"
  "timersOk (st\<lparr>sessionToSocket := e\<rparr>) = timersOk st"
  "timersOk (st\<lparr>adapterRooms := f\<rparr>) = timersOk st"
  "timersOk (st\<lparr>sockets := g\<rparr>) = timersOk st"
  by (simp_all add: timersOk_def)


lemma joinRoom_userSessions:
  "userSessions (fst (joinRoom st sock sid r)) = userSessions st"
  by (simp add: joinRoom_def Let_def attachSocket_def setRoom_def socketJoin_def split: option.splits)

lemma joinRoom_adapterRooms:
  "adapterRooms (fst (joinRoom st sock sid r)) = (adapterRooms st)(r := insert sock (adapterRooms st r))"
  by (simp add: joinRoom_def Let_def attachSocket_def setRoom_def socketJoin_def split: option.splits)



lemma handleSessionLeaveRoom_userSessions:
  "userSessions (fst (handleSessionLeaveRoom st sid r)) = userSessions st"
  by (simp add: handleSessionLeaveRoom_def Let_def setRoom_def setTimeout_def
      cancelCleanup_def clearTimeout_def split: option.splits)

lemma handleSessionLeaveRoom_adapterRooms:
  "adapterRooms (fst (handleSessionLeaveRoom st sid r)) = adapterRooms st"
  by (simp add: handleSessionLeaveRoom_def Let_def setRoom_def setTimeout_def
      cancelCleanup_def clearTimeout_def split: option.splits)


lemma handleUserLeaveRoom_userSessions:
  "userSessions (fst (handleUserLeaveRoom st sock r)) = userSessions st"
  by (simp add: handleUserLeaveRoom_def Let_def handleSessionLeaveRoom_userSessions
      socketLeave_def setRoom_def deleteRoom_def split: option.splits)

lemma handleUserLeaveRoom_adapterRooms:
  "adapterRooms (fst (handleUserLeaveRoom st sock r)) r' \<supseteq> adapterRooms st r' - (if r' = r then {sock} else {})"
  by (auto simp add: handleUserLeaveRoom_def Let_def handleSessionLeaveRoom_adapterRooms
      socketLeave_def setRoom_def deleteRoom_def split: option.splits)


lemma dropConnection_userSessions:
  "userSessions (fst (dropConnection st sock sid conns)) = userSessions st"
  by (simp add: dropConnection_def Let_def handleSessionLeaveRoom_userSessions
      split: option.splits list.splits)

lemma dropConnection_adapterRooms:
  "adapterRooms (fst (dropConnection st sock sid conns)) = adapterRooms st"
  by (simp add: dropConnection_def Let_def handleSessionLeaveRoom_adapterRooms
      split: option.splits list.splits)


lemma on_disconnect_userSessions:
  "userSessions (fst (on_disconnect st sock)) = (userSessions st)(sock := None)"
  by (simp add: on_disconnect_def Let_def dropConnection_userSessions socketClose_def
      split: option.splits)

lemma on_disconnect_adapterRooms:
  "adapterRooms (fst (on_disconnect st sock)) r = adapterRooms st r - {sock}"
  by (simp add: on_disconnect_def Let_def dropConnection_adapterRooms socketClose_def
      split: option.splits)


lemma fireTimeout_frame:
  "userSessions (fireTimeout st tid) = userSessions st"
  "adapterRooms (fireTimeout st tid) = adapterRooms st"
  by (simp_all add: fireTimeout_def cleanupCallback_def clearTimeout_def deleteRoom_def
      split: option.splits)

lemma registerSocket_frame:
  "timeouts (registerSocket st sock sid) = timeouts st"
  "pendingRoomCleanups (registerSocket st sock sid) = pendingRoomCleanups st"
  "nextTimeout (registerSocket st sock sid) = nextTimeout st"
  "adapterRooms (registerSocket st sock sid) = adapterRooms st"
  "userSessions (registerSocket st sock sid) = (userSessions st)(sock \<mapsto> sid)"
  by (simp_all add: registerSocket_def)




lemma on_session_info_userSessions:
  "userSessions (fst (on_session_info st sock sid r)) =
     (if truthy sid then (userSessions st)(sock \<mapsto> sid) else userSessions st)"
  by (auto simp: on_session_info_def Let_def joinRoom_userSessions registerSocket_frame
      split: option.splits)

lemma on_session_info_adapterRooms:
  "adapterRooms st r' \<subseteq> adapterRooms (fst (on_session_info st sock sid r)) r'"
  by (auto simp: on_session_info_def Let_def joinRoom_adapterRooms registerSocket_frame
      split: option.splits)


lemma on_connection_userSessions:
  assumes "on_connection st sock a r = Inr res" "sock' \<noteq> sock"
  shows "userSessions (fst res) sock' = userSessions st sock'"
  using assms
  by (auto simp: on_connection_def Let_def joinRoom_userSessions registerSocket_frame
      attachSocket_def setRoom_def socketJoin_def socketOpen_def cancelCleanup_def clearTimeout_def
      split: option.splits if_splits)

lemma on_connection_adapterRooms:
  assumes "on_connection st sock a r = Inr res"
  shows "adapterRooms st r' \<subseteq> adapterRooms (fst res) r'"
  using assms
  by (auto simp: on_connection_def Let_def joinRoom_adapterRooms registerSocket_frame
      attachSocket_def setRoom_def socketJoin_def socketOpen_def cancelCleanup_def clearTimeout_def
      split: option.splits if_splits)



section \<open>Disconnection\<close>

lemma handleSessionLeaveRoom_unlisted:
  assumes "sessionConnections st sid = None"
  shows "snd (handleSessionLeaveRoom st sid roomId) = []"
  using assms
  by (simp add: handleSessionLeaveRoom_def Let_def getSocketIdsBySessionId_def setRoom_def
      split: option.splits)

lemma dropConnection_silent: "snd (dropConnection st sock sid conns) = []"
  by (simp add: dropConnection_def Let_def handleSessionLeaveRoom_unlisted split: option.splits list.splits)

lemma on_disconnect_silent: "snd (on_disconnect st sock) = []"
  by (simp add: on_disconnect_def Let_def dropConnection_silent split: option.splits)

text \<open>
  Claim C2 does not hold of the code. When \<open>u1\<close> and \<open>u2\<close> occupy \<open>R1\<close> and the only
  socket of \<open>u1\<close> disconnects, \<open>u1\<close> is removed from the room, the socket of \<open>u2\<close>
  stays in the broadcast room, and the disconnect handler emits nothing: the list of the
  session's sockets is deleted before \<open>handleSessionLeaveRoom\<close> reads it. The
  \<^verbatim>\<open>leave-room\<close> handler, in the same state, does emit \<^verbatim>\<open>user-left\<close>.
\<close>

theorem disconnect_notifies_nobody:
  "exec initial twoInRoom = Inr (stateAfter twoInRoom)
   \<and> map_option sessionIds (getRoom (stateAfter twoInRoom) ''R1'') = Some [''u1'', ''u2'']
   \<and> sessionConnections (stateAfter twoInRoom) ''u1'' = Some [''X'']
   \<and> userSessions (stateAfter twoInRoom) ''Y'' = Some ''u2''
   \<and> step (stateAfter twoInRoom) (Disconnect ''X'') = Inr (on_disconnect (stateAfter twoInRoom) ''X'')
   \<and> snd (on_disconnect (stateAfter twoInRoom) ''X'') = []
   \<and> map_option sessionIds (getRoom (fst (on_disconnect (stateAfter twoInRoom) ''X'')) ''R1'')
        = Some [''u2'']
   \<and> adapterRooms (fst (on_disconnect (stateAfter twoInRoom) ''X'')) ''R1'' = {''Y''}
   \<and> snd (on_leave_room (stateAfter twoInRoom) ''X'' ''R1'') = [userLeft ''X'' (JStr ''u1'') ''R1'']"
  by (auto simp add: twoInRoom_runs twoInRoom_state twoInRoomState_def handler_defs leave_defs)

section \<open>Joining again\<close>

text \<open>
  Claim C3 does not hold of the code. In the run \<open>rejoined\<close> the identity \<open>u1\<close> occupies
  \<open>R1\<close> while a clean-up of \<open>R1\<close> is pending for \<open>u1\<close>. A further socket of \<open>u1\<close> that
  connects with the room id in its handshake goes through \<open>joinRoom\<close>: the occupants stay
  \<open>[u1]\<close> and the socket is attached, but the pending clean-up and its timer are still
  there. A further socket of \<open>u1\<close> that connects without a room id goes through the
  reconnect block of the connection handler, which does cancel them.
\<close>

theorem join_keeps_pending_cleanup:
  "exec initial rejoined = Inr (stateAfter rejoined)
   \<and> getRoom (stateAfter rejoined) ''R1'' = Some \<lparr>sessionIds = [''u1''], socketIds = [''X2'']\<rparr>
   \<and> pendingRoomCleanups (stateAfter rejoined) ''R1''
        = Some \<lparr>c_sessionId = ''u1'', c_timeoutId = 0\<rparr>
   \<and> timeouts (stateAfter rejoined) 0
        = Some \<lparr>t_roomId = ''R1'', t_sessionId = ''u1'', t_delay = 20000\<rparr>
   \<and> step (stateAfter rejoined) (Connection ''X3'' (Some ''u1'') (Some ''R1''))
        = Inr (joinRoom (registerSocket (socketOpen ''X3'' (stateAfter rejoined)) ''X3'' ''u1'')
                 ''X3'' ''u1'' ''R1'')
   \<and> getRoom (fst (joinRoom (registerSocket (socketOpen ''X3'' (stateAfter rejoined)) ''X3'' ''u1'')
                 ''X3'' ''u1'' ''R1'')) ''R1''
        = Some \<lparr>sessionIds = [''u1''], socketIds = [''X2'', ''X3'']\<rparr>
   \<and> pendingRoomCleanups
        (fst (joinRoom (registerSocket (socketOpen ''X3'' (stateAfter rejoined)) ''X3'' ''u1'')
                 ''X3'' ''u1'' ''R1'')) ''R1''
        = Some \<lparr>c_sessionId = ''u1'', c_timeoutId = 0\<rparr>
   \<and> timeouts
        (fst (joinRoom (registerSocket (socketOpen ''X3'' (stateAfter rejoined)) ''X3'' ''u1'')
                 ''X3'' ''u1'' ''R1'')) 0
        = Some \<lparr>t_roomId = ''R1'', t_sessionId = ''u1'', t_delay = 20000\<rparr>
   \<and> step (stateAfter rejoined) (Connection ''X3'' (Some ''u1'') None)
        = Inr (cancelCleanup ''R1'' \<lparr>c_sessionId = ''u1'', c_timeoutId = 0\<rparr>
                 (attachSocket ''X3'' ''R1'' \<lparr>sessionIds = [''u1''], socketIds = [''X2'']\<rparr>
                    (socketJoin ''X3'' ''R1''
                       (registerSocket (socketOpen ''X3'' (stateAfter rejoined)) ''X3'' ''u1''))), [])
   \<and> pendingRoomCleanups
        (cancelCleanup ''R1'' \<lparr>c_sessionId = ''u1'', c_timeoutId = 0\<rparr>
           (attachSocket ''X3'' ''R1'' \<lparr>sessionIds = [''u1''], socketIds = [''X2'']\<rparr>
              (socketJoin ''X3'' ''R1''
                 (registerSocket (socketOpen ''X3'' (stateAfter rejoined)) ''X3'' ''u1'')))) ''R1'' = None
   \<and> timeouts
        (cancelCleanup ''R1'' \<lparr>c_sessionId = ''u1'', c_timeoutId = 0\<rparr>
           (attachSocket ''X3'' ''R1'' \<lparr>sessionIds = [''u1''], socketIds = [''X2'']\<rparr>
              (socketJoin ''X3'' ''R1''
                 (registerSocket (socketOpen ''X3'' (stateAfter rejoined)) ''X3'' ''u1'')))) 0 = None"
  by (simp add: rejoined_runs rejoined_state rejoinedState_def handler_defs cancelCleanup_def
      clearTimeout_def)

section \<open>The grace period\<close>


lemma handleSessionLeaveRoom_keeps_room:
  assumes "getRoom st roomId = Some rd" "sessionIds rd = [sid]"
  shows "getRoom (fst (handleSessionLeaveRoom st sid roomId)) roomId = Some (rd\<lparr>sessionIds := []\<rparr>)"
  using assms by (simp add: getRoom_handleSessionLeaveRoom spliceOut_def)



lemma staysOccupiedI:
  "(\<And>r rd. getRoom st r = Some rd \<Longrightarrow> sessionIds rd \<noteq> [] \<Longrightarrow>
      \<exists>rd'. getRoom st' r = Some rd' \<and> sessionIds rd' \<noteq> []) \<Longrightarrow> staysOccupied st st'"
  by (simp add: staysOccupied_def)

lemma staysOccupiedD:
  "staysOccupied st st' \<Longrightarrow> getRoom st r = Some rd \<Longrightarrow> sessionIds rd \<noteq> [] \<Longrightarrow>
     \<exists>rd'. getRoom st' r = Some rd' \<and> sessionIds rd' \<noteq> []"
  by (simp add: staysOccupied_def)


lemma staysOccupied_trans:
  assumes "staysOccupied a b" "staysOccupied b c"
  shows "staysOccupied a c"
proof (rule staysOccupiedI)
  fix r rd
  assume "getRoom a r = Some rd" "sessionIds rd \<noteq> []"
  from staysOccupiedD[OF assms(1) this] obtain rd' where "getRoom b r = Some rd'" "sessionIds rd' \<noteq> []"
    by blast
  from staysOccupiedD[OF assms(2) this] show "\<exists>rd'. getRoom c r = Some rd' \<and> sessionIds rd' \<noteq> []" .
qed


















lemma timerView_update [simp]:
  "timerView (st\<lparr>userRooms := b\<rparr>) = timerView st"
  "timerView (st\<lparr>sessionConnections := c\<rparr>) = timerView st"
  "timerView (st\<lparr>userSessions := d\<rparr>) = timerView st"
  "timerView (st\<lparr>sessionToSocket := e\<rparr>) = timerView st"
  "timerView (st\<lparr>adapterRooms := f\<rparr>) = timerView st"
  "timerView (st\<lparr>sockets := g\<rparr>) = timerView st"
  by (simp_all add: timerView_def)

lemma timerView_prims [simp]:
  "timerView (socketClose sock st) = timerView st"
  "timerView (socketLeave sock r st) = timerView st"
  "timerView (socketJoin sock r st) = timerView st"
  by (simp_all add: timerView_def socketClose_def socketLeave_def socketJoin_def)

lemma setRoom_fields [simp]:
  "timeouts (setRoom r rd st) = timeouts st"
  "pendingRoomCleanups (setRoom r rd st) = pendingRoomCleanups st"
  "nextTimeout (setRoom r rd st) = nextTimeout st"
  by (simp_all add: setRoom_def)

lemma timerView_handleSessionLeaveRoom:
  assumes "timerView sc = timerView st"
  shows "timerView (fst (handleSessionLeaveRoom sc sid r)) = timerView (fst (handleSessionLeaveRoom st sid r))"
proof -
  from assms have e: "getRoom sc = getRoom st" "timeouts sc = timeouts st"
    "pendingRoomCleanups sc = pendingRoomCleanups st" "nextTimeout sc = nextTimeout st"
    by (simp_all add: timerView_def)
  show ?thesis
    by (simp add: handleSessionLeaveRoom_def Let_def timerView_def e setTimeout_def
        cancelCleanup_def clearTimeout_def fun_eq_iff split: option.splits)
qed

lemma timerView_handleSessionLeaveRoom_update [simp]:
  "timerView (fst (handleSessionLeaveRoom (st\<lparr>sessionConnections := c\<rparr>) sid r))
     = timerView (fst (handleSessionLeaveRoom st sid r))"
  "timerView (fst (handleSessionLeaveRoom (st\<lparr>sessionToSocket := e\<rparr>) sid r))
     = timerView (fst (handleSessionLeaveRoom st sid r))"
  "timerView (fst (handleSessionLeaveRoom (socketClose sock st) sid r))
     = timerView (fst (handleSessionLeaveRoom st sid r))"
  by (rule timerView_handleSessionLeaveRoom, simp)+












section \<open>The identity of a connection\<close>

lemma step_userSessions:
  assumes "step st ev = Inr res" "ev \<noteq> Disconnect sock" "\<forall>a r. ev \<noteq> Connection sock a r"
    "\<forall>s r. ev = SessionInfo sock s r \<longrightarrow> s = [] \<or> userSessions st sock = Some s"
  shows "userSessions (fst res) sock = userSessions st sock"
proof (cases ev)
  case (Connection c a r)
  with assms show ?thesis by (auto dest: on_connection_userSessions)
next
  case (SessionInfo c s r)
  with assms show ?thesis by (auto simp: on_session_info_userSessions truthy_def)
next
  case (CreateRoom c r)
  with assms show ?thesis
    by (auto simp: on_create_room_def joinRoom_userSessions split: option.splits)
next
  case (JoinRoom c r)
  with assms show ?thesis
    by (auto simp: on_join_room_def joinRoom_userSessions split: option.splits)
next
  case (LeaveRoom c r)
  with assms show ?thesis by (auto simp: on_leave_room_def handleUserLeaveRoom_userSessions)
next
  case (Disconnect c)
  with assms show ?thesis by (auto simp: on_disconnect_userSessions)
next
  case (TimeoutFires tid)
  with assms show ?thesis by (auto simp: fireTimeout_frame)
next
  case (CheckRoom r)
  with assms show ?thesis by (auto simp: checkRoom_def Let_def split: lookup.splits)
qed (use assms in \<open>auto simp: map_sum_def split: sum.splits\<close>)

lemma on_connection_userSessions_self:
  assumes "on_connection st sock a r = Inr res"
  shows "userSessions (fst res) sock =
           (case a of None \<Rightarrow> userSessions st sock
            | Some sid \<Rightarrow> if sid = [] then userSessions st sock else Some sid)"
  using assms
  by (auto simp: on_connection_def Let_def joinRoom_userSessions registerSocket_frame
      attachSocket_def setRoom_def socketJoin_def socketOpen_def cancelCleanup_def clearTimeout_def
      truthy_def split: option.splits if_splits)

text \<open>
  Claim C7, as amended. A socket has at most one identity at a time, the entry of
  \<open>userSessions\<close>. The entry is set to the session id of the handshake when the socket
  connects with a non-empty one, is set to the identity of every \<^verbatim>\<open>session-info\<close>
  that the socket sends with a non-empty identity, also one that differs from the entry,
  and is removed when the socket disconnects. No other event changes it.
\<close>

theorem identity_binding:
  "(step st ev = Inr res \<and> ev \<noteq> Disconnect sock \<and> (\<forall>a r. ev \<noteq> Connection sock a r) \<and>
    (\<forall>s r. ev \<noteq> SessionInfo sock s r)
      \<longrightarrow> userSessions (fst res) sock = userSessions st sock)
   \<and> (step st (Connection sock a r) = Inr res \<longrightarrow>
        userSessions (fst res) sock =
          (case a of None \<Rightarrow> userSessions st sock
           | Some sid \<Rightarrow> if sid = [] then userSessions st sock else Some sid))
   \<and> (step st (SessionInfo sock s' r') = Inr res \<longrightarrow>
        userSessions (fst res) sock = (if s' = [] then userSessions st sock else Some s'))
   \<and> (step st (Disconnect sock) = Inr res \<longrightarrow> userSessions (fst res) sock = None)"
proof (intro conjI impI)
  assume "step st ev = Inr res \<and> ev \<noteq> Disconnect sock \<and> (\<forall>a r. ev \<noteq> Connection sock a r) \<and>
    (\<forall>s r. ev \<noteq> SessionInfo sock s r)"
  then show "userSessions (fst res) sock = userSessions st sock"
    by (intro step_userSessions[of st ev res sock]) auto
next
  assume "step st (Connection sock a r) = Inr res"
  then show "userSessions (fst res) sock =
          (case a of None \<Rightarrow> userSessions st sock
           | Some sid \<Rightarrow> if sid = [] then userSessions st sock else Some sid)"
    by (simp add: on_connection_userSessions_self)
next
  assume "step st (SessionInfo sock s' r') = Inr res"
  then show "userSessions (fst res) sock = (if s' = [] then userSessions st sock else Some s')"
    by (auto simp: on_session_info_userSessions truthy_def)
next
  assume "step st (Disconnect sock) = Inr res"
  then show "userSessions (fst res) sock = None"
    by (auto simp: on_disconnect_userSessions)
qed

theorem identity_binding_witness:
  "userSessions (stateAfter twoInRoom) ''X'' = Some ''u1''
   \<and> userSessions (stateAfter twoInRoom) ''Z'' = None
   \<and> step (stateAfter twoInRoom) (Disconnect ''Y'') = Inr (on_disconnect (stateAfter twoInRoom) ''Y'')
   \<and> userSessions (fst (on_disconnect (stateAfter twoInRoom) ''Y'')) ''X'' = Some ''u1''
   \<and> step (stateAfter twoInRoom) (Connection ''Z'' (Some ''u3'') None)
        = Inr (registerSocket (socketOpen ''Z'' (stateAfter twoInRoom)) ''Z'' ''u3'', [])
   \<and> userSessions (registerSocket (socketOpen ''Z'' (stateAfter twoInRoom)) ''Z'' ''u3'') ''Z''
        = Some ''u3''
   \<and> step (stateAfter twoInRoom) (SessionInfo ''X'' ''u2'' None)
        = Inr (on_session_info (stateAfter twoInRoom) ''X'' ''u2'' None)
   \<and> userSessions (fst (on_session_info (stateAfter twoInRoom) ''X'' ''u2'' None)) ''X'' = Some ''u2''
   \<and> step (stateAfter twoInRoom) (Disconnect ''X'') = Inr (on_disconnect (stateAfter twoInRoom) ''X'')
   \<and> userSessions (fst (on_disconnect (stateAfter twoInRoom) ''X'')) ''X'' = None"
proof -
  have u: "userSessions (stateAfter twoInRoom) ''X'' = Some ''u1''"
          "userSessions (stateAfter twoInRoom) ''Z'' = None"
          "userRooms (stateAfter twoInRoom) ''u3'' = None"
    by (simp_all add: twoInRoom_state twoInRoomState_def)
  have c: "step (stateAfter twoInRoom) (Connection ''Z'' (Some ''u3'') None)
        = Inr (registerSocket (socketOpen ''Z'' (stateAfter twoInRoom)) ''Z'' ''u3'', [])"
    using u(3) by (simp add: on_connection_def Let_def truthy_def registerSocket_def socketOpen_def
        socketJoin_def)
  note a = identity_binding[of "stateAfter twoInRoom" "Disconnect ''Y''"
          "on_disconnect (stateAfter twoInRoom) ''Y''" "''X''" None None "''u2''" None]
  note b = identity_binding[of "stateAfter twoInRoom" "Disconnect ''Y''"
          "(registerSocket (socketOpen ''Z'' (stateAfter twoInRoom)) ''Z'' ''u3'', [])" "''Z''"
          "Some ''u3''" None "''u2''" None]
  note d = identity_binding[of "stateAfter twoInRoom" "Disconnect ''Y''"
          "on_session_info (stateAfter twoInRoom) ''X'' ''u2'' None" "''X''" None None "''u2''" None]
  note e = identity_binding[of "stateAfter twoInRoom" "Disconnect ''Y''"
          "on_disconnect (stateAfter twoInRoom) ''X''" "''X''" None None "''u2''" None]
  from a b d e u c show ?thesis by simp
qed

text \<open>
  The claim as stated fails: a socket connected as \<open>u1\<close> that sends
  \<^verbatim>\<open>session-info\<close> with identity \<open>u2\<close> is \<open>u2\<close> from then on, and stays listed
  among the connections of both.
\<close>

theorem identity_rebinding_counterexample:
  "exec initial [Connection ''X'' (Some ''u1'') None]
     = Inr (stateAfter [Connection ''X'' (Some ''u1'') None])
   \<and> userSessions (stateAfter [Connection ''X'' (Some ''u1'') None]) ''X'' = Some ''u1''
   \<and> exec initial [Connection ''X'' (Some ''u1'') None, SessionInfo ''X'' ''u2'' None]
     = Inr (stateAfter [Connection ''X'' (Some ''u1'') None, SessionInfo ''X'' ''u2'' None])
   \<and> userSessions (stateAfter [Connection ''X'' (Some ''u1'') None, SessionInfo ''X'' ''u2'' None]) ''X''
     = Some ''u2''
   \<and> sessionConnections
        (stateAfter [Connection ''X'' (Some ''u1'') None, SessionInfo ''X'' ''u2'' None]) ''u1''
     = Some [''X'']
   \<and> sessionConnections
        (stateAfter [Connection ''X'' (Some ''u1'') None, SessionInfo ''X'' ''u2'' None]) ''u2''
     = Some [''X'']"
  by (simp add: stateAfter_def run_defs)

section \<open>A rejected socket and the broadcast room\<close>

lemma step_keeps_member:
  assumes "step st ev = Inr res" "sock \<in> adapterRooms st r" "ev \<noteq> Disconnect sock"
    "ev \<noteq> LeaveRoom sock r"
  shows "sock \<in> adapterRooms (fst res) r"
proof (cases ev)
  case (Connection c a rid)
  with assms show ?thesis using on_connection_adapterRooms[of st c a rid res r] by auto
next
  case (SessionInfo c s rid)
  with assms show ?thesis using on_session_info_adapterRooms[of st r c s rid] by auto
next
  case (CreateRoom c rid)
  with assms show ?thesis
    by (auto simp: on_create_room_def joinRoom_adapterRooms split: option.splits)
next
  case (JoinRoom c rid)
  with assms show ?thesis
    by (auto simp: on_join_room_def joinRoom_adapterRooms split: option.splits)
next
  case (LeaveRoom c rid)
  with assms show ?thesis
    using handleUserLeaveRoom_adapterRooms[of st r rid c]
    by (auto simp: on_leave_room_def split: if_splits)
next
  case (Disconnect c)
  with assms show ?thesis by (auto simp: on_disconnect_adapterRooms)
next
  case (TimeoutFires tid)
  with assms show ?thesis by (auto simp: fireTimeout_frame)
next
  case (CheckRoom rid)
  with assms show ?thesis by (auto simp: checkRoom_def Let_def split: lookup.splits)
qed (use assms in \<open>auto simp: map_sum_def split: sum.splits\<close>)

lemma exec_keeps_member:
  assumes "\<forall>e\<in>set evs. e \<noteq> Disconnect sock \<and> e \<noteq> LeaveRoom sock r"
  shows "sock \<in> adapterRooms st r \<Longrightarrow> exec st evs = Inr st' \<Longrightarrow> sock \<in> adapterRooms st' r"
  using assms
proof (induction evs arbitrary: st)
  case Nil
  then show ?case by simp
next
  case (Cons e es)
  from Cons.prems(2) obtain res where s: "step st e = Inr res" and x: "exec (fst res) es = Inr st'"
    by (auto split: sum.splits)
  from Cons.prems(3) have ne: "e \<noteq> Disconnect sock" "e \<noteq> LeaveRoom sock r" by simp_all
  have "sock \<in> adapterRooms (fst res) r"
    by (rule step_keeps_member[OF s Cons.prems(1) ne])
  from Cons.IH[OF this x] Cons.prems(3) show ?case by simp
qed

text \<open>
  Claim C10. A socket whose join is rejected with \<^verbatim>\<open>room-full\<close> has been put into the
  Socket.IO room all the same, although the room's entry, with its occupants and its
  socket list, is as before. As long as that socket neither leaves the room nor
  disconnects, every emission addressed to the room by another socket is delivered to it.
\<close>

theorem rejected_socket_stays_in_broadcast_room:
  "getRoom st roomId = Some rd \<and> 2 \<le> length (sessionIds rd) \<and> sid \<notin> set (sessionIds rd) \<and>
   sock \<notin> set (socketIds rd) \<and>
   exec (fst (joinRoom st sock sid roomId)) evs = Inr st' \<and>
   (\<forall>e\<in>set evs. e \<noteq> Disconnect sock \<and> e \<noteq> LeaveRoom sock roomId) \<and> other \<noteq> sock
   \<longrightarrow> snd (joinRoom st sock sid roomId) = [roomFull sock roomId]
     \<and> getRoom (fst (joinRoom st sock sid roomId)) roomId = Some rd
     \<and> sock \<in> adapterRooms (fst (joinRoom st sock sid roomId)) roomId
     \<and> sock \<in> recipients (fst (joinRoom st sock sid roomId)) (ToRoomExcept (JStr roomId) other)
     \<and> sock \<in> recipients st' (ToRoomExcept (JStr roomId) other)"
proof (intro impI)
  assume a: "getRoom st roomId = Some rd \<and> 2 \<le> length (sessionIds rd) \<and> sid \<notin> set (sessionIds rd) \<and>
   sock \<notin> set (socketIds rd) \<and>
   exec (fst (joinRoom st sock sid roomId)) evs = Inr st' \<and>
   (\<forall>e\<in>set evs. e \<noteq> Disconnect sock \<and> e \<noteq> LeaveRoom sock roomId) \<and> other \<noteq> sock"
  then have j: "joinRoom st sock sid roomId = (socketJoin sock roomId st, [roomFull sock roomId])"
    by (intro joinRoom_full[of st roomId rd]) (simp_all add: MAX_USERS_PER_ROOM_def)
  have m: "sock \<in> adapterRooms (fst (joinRoom st sock sid roomId)) roomId"
    by (simp add: joinRoom_adapterRooms)
  from a have "sock \<in> adapterRooms st' roomId"
    using exec_keeps_member[of evs sock roomId "fst (joinRoom st sock sid roomId)" st'] m by blast
  with a m j show "snd (joinRoom st sock sid roomId) = [roomFull sock roomId]
     \<and> getRoom (fst (joinRoom st sock sid roomId)) roomId = Some rd
     \<and> sock \<in> adapterRooms (fst (joinRoom st sock sid roomId)) roomId
     \<and> sock \<in> recipients (fst (joinRoom st sock sid roomId)) (ToRoomExcept (JStr roomId) other)
     \<and> sock \<in> recipients st' (ToRoomExcept (JStr roomId) other)"
    by auto
qed

theorem rejected_socket_stays_in_broadcast_room_witness:
  "getRoom (stateAfter twoInRoom) ''R1''
     = Some \<lparr>sessionIds = [''u1'', ''u2''], socketIds = [''X'', ''Y'']\<rparr>
   \<and> step (fst (joinRoom (stateAfter twoInRoom) ''Z'' ''u3'' ''R1''))
        (Offer ''X'' (JObj [(''offer'', JObj [(''type'', JStr ''offer''), (''sdp'', JStr ''v=0'')]),
                            (''roomId'', JStr ''R1'')]))
       = Inr (fst (joinRoom (stateAfter twoInRoom) ''Z'' ''u3'' ''R1''),
              [Emit (ToRoomExcept (JStr ''R1'') ''X'') ''offer''
                 (stamped (fst (joinRoom (stateAfter twoInRoom) ''Z'' ''u3'' ''R1'')) ''X''
                    (JObj [(''type'', JStr ''offer''), (''sdp'', JStr ''v=0'')]))])
   \<and> exec (fst (joinRoom (stateAfter twoInRoom) ''Z'' ''u3'' ''R1''))
        [Offer ''X'' (JObj [(''offer'', JObj [(''type'', JStr ''offer''), (''sdp'', JStr ''v=0'')]),
                            (''roomId'', JStr ''R1'')])]
       = Inr (fst (joinRoom (stateAfter twoInRoom) ''Z'' ''u3'' ''R1''))
   \<and> snd (joinRoom (stateAfter twoInRoom) ''Z'' ''u3'' ''R1'') = [roomFull ''Z'' ''R1'']
   \<and> getRoom (fst (joinRoom (stateAfter twoInRoom) ''Z'' ''u3'' ''R1'')) ''R1''
     = Some \<lparr>sessionIds = [''u1'', ''u2''], socketIds = [''X'', ''Y'']\<rparr>
   \<and> ''Z'' \<in> adapterRooms (fst (joinRoom (stateAfter twoInRoom) ''Z'' ''u3'' ''R1'')) ''R1''
   \<and> ''Z'' \<in> recipients (fst (joinRoom (stateAfter twoInRoom) ''Z'' ''u3'' ''R1''))
               (ToRoomExcept (JStr ''R1'') ''X'')"
proof -
  let ?rd = "\<lparr>sessionIds = [''u1'', ''u2''], socketIds = [''X'', ''Y'']\<rparr>"
  let ?st = "fst (joinRoom (stateAfter twoInRoom) ''Z'' ''u3'' ''R1'')"
  let ?evs = "[Offer ''X'' (JObj [(''offer'', JObj [(''type'', JStr ''offer''), (''sdp'', JStr ''v=0'')]),
                            (''roomId'', JStr ''R1'')])]"
  have s: "step ?st (hd ?evs) = Inr (?st, [Emit (ToRoomExcept (JStr ''R1'') ''X'') ''offer''
                 (stamped ?st ''X'' (JObj [(''type'', JStr ''offer''), (''sdp'', JStr ''v=0'')]))])"
    by (simp add: on_offer_def)
  then have x: "exec ?st ?evs = Inr ?st"
    by simp
  from rejected_socket_stays_in_broadcast_room[of "stateAfter twoInRoom" "''R1''" ?rd "''u3''" "''Z''"
         ?evs ?st "''X''"] twoInRoom_room x s
  show ?thesis by simp
qed

end
